theory Spec2Isabelle
  imports Main "HOL-Library.Word"
begin

section \<open>Memory model\<close>

text \<open>
  The extraction context of \<^verbatim>\<open>tracker-extract-info.c\<close> is a C struct reached through a
  pointer, holding pointers to two reference-counted GObjects (the file and the resource)
  and to three heap strings it owns. The model keeps one store per C type. An address is
  an index into its store; a freed cell stays in the store as \<open>None\<close> and its address
  is never handed out again, so a dangling pointer is always recognisable. A pointer is
  an optional address: \<open>None\<close> is \<^verbatim>\<open>NULL\<close>.
\<close>

type_synonym addr = nat
type_synonym gpointer = "addr option"
type_synonym gint = "32 word"
type_synonym guint = "32 word"
type_synonym 'a store = "'a option list"

definition cell_at :: "'a store \<Rightarrow> addr \<Rightarrow> 'a option" where
  "cell_at s a = (if a < length s then s ! a else None)"

definition cell_new :: "'a store \<Rightarrow> 'a \<Rightarrow> addr \<times> 'a store" where
  "cell_new s v = (length s, s @ [Some v])"

definition cell_set :: "'a store \<Rightarrow> addr \<Rightarrow> 'a \<Rightarrow> 'a store" where
  "cell_set s a v = s[a := Some v]"

definition cell_free :: "'a store \<Rightarrow> addr \<Rightarrow> 'a store" where
  "cell_free s a = s[a := None]"

text \<open>
  What goes wrong when C dereferences a bad pointer: the program does not return.
\<close>

datatype fault = NullDereference | InvalidPointer

definition and_then :: "fault + 'a \<Rightarrow> ('a \<Rightarrow> fault + 'b) \<Rightarrow> fault + 'b" where
  "and_then m f = (case m of Inl e \<Rightarrow> Inl e | Inr x \<Rightarrow> f x)"

datatype GType = G_TYPE_FILE | TRACKER_TYPE_RESOURCE | G_TYPE_OBJECT

record GObject =
  g_type :: GType
  g_ref_count :: guint

text \<open>\<^verbatim>\<open>struct _TrackerExtractInfo\<close>, field by field.\<close>

record TrackerExtractInfo =
  resource :: gpointer
  "file" :: gpointer
  content_id :: gpointer
  mimetype :: gpointer
  graph :: gpointer
  max_text :: gint
  ref_count :: gint

text \<open>
  The heap: the three stores, and the log of failed \<^verbatim>\<open>g_return_if_fail\<close> checks
  (GLib prints a critical warning and the function returns).
\<close>

record heap =
  objects :: "GObject store"
  strings :: "string store"
  infos :: "TrackerExtractInfo store"
  criticals :: "string list"

section \<open>The GLib primitives the file calls\<close>

definition g_critical :: "heap \<Rightarrow> string \<Rightarrow> heap" where
  "g_critical h msg = h\<lparr>criticals := criticals h @ [msg]\<rparr>"

text \<open>\<^verbatim>\<open>G_IS_FILE (file)\<close>: false on \<^verbatim>\<open>NULL\<close>, otherwise the dynamic type of the object.\<close>

definition G_IS_FILE :: "heap \<Rightarrow> gpointer \<Rightarrow> fault + bool" where
  "G_IS_FILE h p =
     (case p of
        None \<Rightarrow> Inr False
      | Some a \<Rightarrow>
          (case cell_at (objects h) a of
             None \<Rightarrow> Inl InvalidPointer
           | Some ob \<Rightarrow> Inr (g_type ob = G_TYPE_FILE)))"

text \<open>
  \<^verbatim>\<open>g_object_ref\<close>: checks \<^verbatim>\<open>G_IS_OBJECT\<close> (a critical and \<^verbatim>\<open>NULL\<close> for \<^verbatim>\<open>NULL\<close>),
  then increments the object's count and returns the object.
\<close>

definition g_object_ref :: "heap \<Rightarrow> gpointer \<Rightarrow> fault + (gpointer \<times> heap)" where
  "g_object_ref h p =
     (case p of
        None \<Rightarrow> Inr (None, g_critical h ''G_IS_OBJECT (object)'')
      | Some a \<Rightarrow>
          (case cell_at (objects h) a of
             None \<Rightarrow> Inl InvalidPointer
           | Some ob \<Rightarrow>
               Inr (Some a,
                    h\<lparr>objects := cell_set (objects h) a
                                   (ob\<lparr>g_ref_count := g_ref_count ob + 1\<rparr>)\<rparr>)))"

text \<open>
  \<^verbatim>\<open>g_object_unref\<close>: drops one reference; the object holding its last reference is
  finalized and its memory freed.
\<close>

definition g_object_unref :: "heap \<Rightarrow> gpointer \<Rightarrow> fault + heap" where
  "g_object_unref h p =
     (case p of
        None \<Rightarrow> Inr (g_critical h ''G_IS_OBJECT (object)'')
      | Some a \<Rightarrow>
          (case cell_at (objects h) a of
             None \<Rightarrow> Inl InvalidPointer
           | Some ob \<Rightarrow>
               if g_ref_count ob = 1
               then Inr (h\<lparr>objects := cell_free (objects h) a\<rparr>)
               else Inr (h\<lparr>objects := cell_set (objects h) a
                                        (ob\<lparr>g_ref_count := g_ref_count ob - 1\<rparr>)\<rparr>)))"

text \<open>
  Strings passed in by the caller (\<^verbatim>\<open>const gchar *\<close> arguments) are only read, and are
  modelled by value: \<open>None\<close> is \<^verbatim>\<open>NULL\<close>. Strings the context owns live in the store.
  \<^verbatim>\<open>g_strdup\<close> returns \<^verbatim>\<open>NULL\<close> for \<^verbatim>\<open>NULL\<close> and a newly allocated copy otherwise.
\<close>

definition g_strdup :: "heap \<Rightarrow> string option \<Rightarrow> gpointer \<times> heap" where
  "g_strdup h str =
     (case str of
        None \<Rightarrow> (None, h)
      | Some s \<Rightarrow>
          (let (a, st) = cell_new (strings h) s in (Some a, h\<lparr>strings := st\<rparr>)))"

text \<open>Reading a string of the store through a pointer.\<close>

definition read_string :: "heap \<Rightarrow> gpointer \<Rightarrow> fault + string option" where
  "read_string h p =
     (case p of
        None \<Rightarrow> Inr None
      | Some a \<Rightarrow>
          (case cell_at (strings h) a of
             None \<Rightarrow> Inl InvalidPointer
           | Some s \<Rightarrow> Inr (Some s)))"

text \<open>
  \<^verbatim>\<open>g_strconcat (string1, ..., NULL)\<close>: \<^verbatim>\<open>NULL\<close> when the first string is \<^verbatim>\<open>NULL\<close>;
  otherwise a newly allocated string, the arguments up to the first \<^verbatim>\<open>NULL\<close> joined.
\<close>

fun concat_until_null :: "string option list \<Rightarrow> string" where
  "concat_until_null [] = []"
| "concat_until_null (None # rest) = []"
| "concat_until_null (Some s # rest) = s @ concat_until_null rest"

definition g_strconcat :: "heap \<Rightarrow> string option \<Rightarrow> string option list \<Rightarrow> gpointer \<times> heap" where
  "g_strconcat h string1 rest =
     (case string1 of
        None \<Rightarrow> (None, h)
      | Some s \<Rightarrow>
          (let (a, st) = cell_new (strings h) (s @ concat_until_null rest)
           in (Some a, h\<lparr>strings := st\<rparr>)))"

text \<open>\<^verbatim>\<open>g_free\<close>: nothing for \<^verbatim>\<open>NULL\<close>; freeing a cell twice is a fault.\<close>

definition g_free :: "heap \<Rightarrow> gpointer \<Rightarrow> fault + heap" where
  "g_free h p =
     (case p of
        None \<Rightarrow> Inr h
      | Some a \<Rightarrow>
          (case cell_at (strings h) a of
             None \<Rightarrow> Inl InvalidPointer
           | Some s \<Rightarrow> Inr (h\<lparr>strings := cell_free (strings h) a\<rparr>)))"

text \<open>\<^verbatim>\<open>g_slice_new0 (TrackerExtractInfo)\<close>: a new struct, every field zero.\<close>

definition g_slice_new0 :: "heap \<Rightarrow> addr \<times> heap" where
  "g_slice_new0 h =
     (let (a, st) = cell_new (infos h)
                      \<lparr>resource = None, file = None, content_id = None, mimetype = None,
                       graph = None, max_text = 0, ref_count = 0\<rparr>
      in (a, h\<lparr>infos := st\<rparr>))"

definition g_slice_free :: "heap \<Rightarrow> addr \<Rightarrow> fault + heap" where
  "g_slice_free h a =
     (case cell_at (infos h) a of
        None \<Rightarrow> Inl InvalidPointer
      | Some i \<Rightarrow> Inr (h\<lparr>infos := cell_free (infos h) a\<rparr>))"

text \<open>An assignment \<^verbatim>\<open>info->field = v\<close> through a pointer known to be live.\<close>

definition store_info :: "heap \<Rightarrow> addr \<Rightarrow> (TrackerExtractInfo \<Rightarrow> TrackerExtractInfo) \<Rightarrow> heap" where
  "store_info h a f =
     (case cell_at (infos h) a of
        None \<Rightarrow> h
      | Some i \<Rightarrow> h\<lparr>infos := cell_set (infos h) a (f i)\<rparr>)"

section \<open>The functions of tracker-extract-info.c\<close>

definition tracker_extract_info_new ::
  "heap \<Rightarrow> gpointer \<Rightarrow> string option \<Rightarrow> string option \<Rightarrow> string option \<Rightarrow> gint
     \<Rightarrow> fault + (gpointer \<times> heap)" where
  "tracker_extract_info_new h filep content_idv mimetypev graphv max_textv =
     and_then (G_IS_FILE h filep) (\<lambda>is_file.
       if \<not> is_file then Inr (None, g_critical h ''G_IS_FILE (file)'')
       else if \<not> (content_idv \<noteq> None \<and> the content_idv \<noteq> [])
       then Inr (None, g_critical h ''content_id && *content_id'')
       else
         (let (info, h0) = g_slice_new0 h in
          and_then (g_object_ref h0 filep) (\<lambda>(f, h1).
            (let h2 = store_info h1 info (\<lambda>i. i\<lparr>file := f\<rparr>);
                 (c, h3) = g_strdup h2 content_idv;
                 h4 = store_info h3 info (\<lambda>i. i\<lparr>content_id := c\<rparr>);
                 (m, h5) = g_strdup h4 mimetypev;
                 h6 = store_info h5 info (\<lambda>i. i\<lparr>mimetype := m\<rparr>);
                 (g, h7) = g_strdup h6 graphv;
                 h8 = store_info h7 info (\<lambda>i. i\<lparr>graph := g\<rparr>);
                 h9 = store_info h8 info (\<lambda>i. i\<lparr>max_text := max_textv\<rparr>);
                 h10 = store_info h9 info (\<lambda>i. i\<lparr>resource := None\<rparr>);
                 h11 = store_info h10 info (\<lambda>i. i\<lparr>ref_count := 1\<rparr>)
             in Inr (Some info, h11)))))"

text \<open>
  \<^verbatim>\<open>g_atomic_int_inc\<close> adds one to the 32-bit counter, wrapping around.
\<close>

definition tracker_extract_info_ref :: "heap \<Rightarrow> gpointer \<Rightarrow> fault + (gpointer \<times> heap)" where
  "tracker_extract_info_ref h info =
     (case info of
        None \<Rightarrow> Inr (None, g_critical h ''info != NULL'')
      | Some a \<Rightarrow>
          (case cell_at (infos h) a of
             None \<Rightarrow> Inl InvalidPointer
           | Some i \<Rightarrow>
               Inr (Some a, store_info h a (\<lambda>i. i\<lparr>ref_count := ref_count i + 1\<rparr>))))"

text \<open>
  \<^verbatim>\<open>g_atomic_int_dec_and_test\<close> subtracts one and tells whether the counter is now zero.
\<close>

definition tracker_extract_info_unref :: "heap \<Rightarrow> gpointer \<Rightarrow> fault + heap" where
  "tracker_extract_info_unref h info =
     (case info of
        None \<Rightarrow> Inr (g_critical h ''info != NULL'')
      | Some a \<Rightarrow>
          (case cell_at (infos h) a of
             None \<Rightarrow> Inl InvalidPointer
           | Some i0 \<Rightarrow>
               (let i = i0\<lparr>ref_count := ref_count i0 - 1\<rparr>;
                    h1 = h\<lparr>infos := cell_set (infos h) a i\<rparr>
                in if ref_count i = 0 then
                     and_then (g_object_unref h1 (file i)) (\<lambda>h2.
                     and_then (g_free h2 (content_id i)) (\<lambda>h3.
                     and_then (g_free h3 (mimetype i)) (\<lambda>h4.
                     and_then (g_free h4 (graph i)) (\<lambda>h5.
                     and_then (if resource i \<noteq> None
                               then g_object_unref h5 (resource i) else Inr h5) (\<lambda>h6.
                     g_slice_free h6 a)))))
                   else Inr h1)))"

definition tracker_extract_info_get_file :: "heap \<Rightarrow> gpointer \<Rightarrow> fault + (gpointer \<times> heap)" where
  "tracker_extract_info_get_file h info =
     (case info of
        None \<Rightarrow> Inr (None, g_critical h ''info != NULL'')
      | Some a \<Rightarrow>
          (case cell_at (infos h) a of
             None \<Rightarrow> Inl InvalidPointer
           | Some i \<Rightarrow> Inr (file i, h)))"

definition tracker_extract_info_get_content_id ::
  "heap \<Rightarrow> gpointer \<Rightarrow> string option \<Rightarrow> fault + (gpointer \<times> heap)" where
  "tracker_extract_info_get_content_id h info suffix =
     (case info of
        None \<Rightarrow> Inr (None, g_critical h ''info != NULL'')
      | Some a \<Rightarrow>
          (case cell_at (infos h) a of
             None \<Rightarrow> Inl InvalidPointer
           | Some i \<Rightarrow>
               and_then (read_string h (content_id i)) (\<lambda>cid.
                 if suffix \<noteq> None
                 then Inr (g_strconcat h cid [Some ''/'', suffix, None])
                 else Inr (g_strdup h cid))))"

definition tracker_extract_info_get_mimetype :: "heap \<Rightarrow> gpointer \<Rightarrow> fault + (gpointer \<times> heap)" where
  "tracker_extract_info_get_mimetype h info =
     (case info of
        None \<Rightarrow> Inr (None, g_critical h ''info != NULL'')
      | Some a \<Rightarrow>
          (case cell_at (infos h) a of
             None \<Rightarrow> Inl InvalidPointer
           | Some i \<Rightarrow> Inr (mimetype i, h)))"

definition tracker_extract_info_get_graph :: "heap \<Rightarrow> gpointer \<Rightarrow> fault + (gpointer \<times> heap)" where
  "tracker_extract_info_get_graph h info =
     (case info of
        None \<Rightarrow> Inr (None, g_critical h ''info != NULL'')
      | Some a \<Rightarrow>
          (case cell_at (infos h) a of
             None \<Rightarrow> Inl InvalidPointer
           | Some i \<Rightarrow> Inr (graph i, h)))"

text \<open>The last three functions dereference \<^verbatim>\<open>info\<close> without a \<^verbatim>\<open>NULL\<close> check.\<close>

definition tracker_extract_info_get_resource :: "heap \<Rightarrow> gpointer \<Rightarrow> fault + (gpointer \<times> heap)" where
  "tracker_extract_info_get_resource h info =
     (case info of
        None \<Rightarrow> Inl NullDereference
      | Some a \<Rightarrow>
          (case cell_at (infos h) a of
             None \<Rightarrow> Inl InvalidPointer
           | Some i \<Rightarrow> Inr (resource i, h)))"

definition tracker_extract_info_set_resource :: "heap \<Rightarrow> gpointer \<Rightarrow> gpointer \<Rightarrow> fault + heap" where
  "tracker_extract_info_set_resource h info resourcep =
     and_then (g_object_ref h resourcep) (\<lambda>(r, h1).
       (case info of
          None \<Rightarrow> Inl NullDereference
        | Some a \<Rightarrow>
            (case cell_at (infos h1) a of
               None \<Rightarrow> Inl InvalidPointer
             | Some i \<Rightarrow> Inr (store_info h1 a (\<lambda>i. i\<lparr>resource := resourcep\<rparr>)))))"

definition tracker_extract_info_get_max_text :: "heap \<Rightarrow> gpointer \<Rightarrow> fault + (gint \<times> heap)" where
  "tracker_extract_info_get_max_text h info =
     (case info of
        None \<Rightarrow> Inl NullDereference
      | Some a \<Rightarrow>
          (case cell_at (infos h) a of
             None \<Rightarrow> Inl InvalidPointer
           | Some i \<Rightarrow> Inr (max_text i, h)))"

section \<open>Observations and drivers used to state the properties\<close>

text \<open>
  A pointer to a live object of a given dynamic type that still holds a reference.
\<close>

definition live_object :: "heap \<Rightarrow> GType \<Rightarrow> gpointer \<Rightarrow> bool" where
  "live_object h t p =
     (case p of
        None \<Rightarrow> False
      | Some a \<Rightarrow>
          (case cell_at (objects h) a of
             None \<Rightarrow> False
           | Some ob \<Rightarrow> g_type ob = t \<and> g_ref_count ob \<noteq> 0))"

text \<open>The number of references held on an object; none once it is finalized.\<close>

definition object_refs :: "heap \<Rightarrow> gpointer \<Rightarrow> nat" where
  "object_refs h p =
     (case p of
        None \<Rightarrow> 0
      | Some a \<Rightarrow>
          (case cell_at (objects h) a of
             None \<Rightarrow> 0
           | Some ob \<Rightarrow> unat (g_ref_count ob)))"

text \<open>
  A validly constructed context, as \<open>tracker_extract_info_new\<close> leaves it (lemma
  \<open>new_valid\<close> below): the struct is live and still referenced, its file is a live
  \<^verbatim>\<open>GFile\<close>, its content id is a live non-empty string, mimetype and graph are
  \<^verbatim>\<open>NULL\<close> or live strings of their own, and the resource is \<^verbatim>\<open>NULL\<close> or, once
  one has been attached, a live \<^verbatim>\<open>TrackerResource\<close>.
\<close>

definition valid_info :: "heap \<Rightarrow> gpointer \<Rightarrow> bool" where
  "valid_info h info =
     (case info of
        None \<Rightarrow> False
      | Some a \<Rightarrow>
          (case cell_at (infos h) a of
             None \<Rightarrow> False
           | Some i \<Rightarrow>
               ref_count i \<noteq> 0 \<and>
               live_object h G_TYPE_FILE (file i) \<and>
               (case read_string h (content_id i) of
                  Inr (Some s) \<Rightarrow> s \<noteq> []
                | _ \<Rightarrow> False) \<and>
               read_string h (mimetype i) \<noteq> Inl InvalidPointer \<and>
               read_string h (graph i) \<noteq> Inl InvalidPointer \<and>
               (resource i = None \<or> live_object h TRACKER_TYPE_RESOURCE (resource i)) \<and>
               content_id i \<noteq> mimetype i \<and> content_id i \<noteq> graph i \<and>
               (mimetype i = graph i \<longrightarrow> mimetype i = None)))"

text \<open>The string a context's \<open>content_id\<close> field points to.\<close>

definition stored_content_id :: "heap \<Rightarrow> addr \<Rightarrow> string option" where
  "stored_content_id h a =
     (case cell_at (infos h) a of
        None \<Rightarrow> None
      | Some i \<Rightarrow>
          (case content_id i of
             None \<Rightarrow> None
           | Some p \<Rightarrow> cell_at (strings h) p))"

text \<open>\<open>n\<close> calls of \<open>tracker_extract_info_ref\<close>, and \<open>n\<close> of \<open>tracker_extract_info_unref\<close>.\<close>

fun acquire_n :: "nat \<Rightarrow> heap \<Rightarrow> gpointer \<Rightarrow> fault + heap" where
  "acquire_n 0 h info = Inr h"
| "acquire_n (Suc n) h info =
     and_then (tracker_extract_info_ref h info) (\<lambda>(p, h'). acquire_n n h' info)"

fun release_n :: "nat \<Rightarrow> heap \<Rightarrow> gpointer \<Rightarrow> fault + heap" where
  "release_n 0 h info = Inr h"
| "release_n (Suc n) h info =
     and_then (tracker_extract_info_unref h info) (\<lambda>h'. release_n n h' info)"

text \<open>Any sequence of calls of the file's functions on one context.\<close>

datatype operation =
    Ref
  | Unref
  | SetResource gpointer
  | GetContentId "string option"
  | GetFile
  | GetMimetype
  | GetGraph
  | GetResource
  | GetMaxText

fun perform :: "heap \<Rightarrow> gpointer \<Rightarrow> operation \<Rightarrow> fault + heap" where
  "perform h info Ref = and_then (tracker_extract_info_ref h info) (\<lambda>(p, h'). Inr h')"
| "perform h info Unref = tracker_extract_info_unref h info"
| "perform h info (SetResource r) = tracker_extract_info_set_resource h info r"
| "perform h info (GetContentId suffix) =
     and_then (tracker_extract_info_get_content_id h info suffix) (\<lambda>(p, h'). Inr h')"
| "perform h info GetFile = and_then (tracker_extract_info_get_file h info) (\<lambda>(p, h'). Inr h')"
| "perform h info GetMimetype =
     and_then (tracker_extract_info_get_mimetype h info) (\<lambda>(p, h'). Inr h')"
| "perform h info GetGraph = and_then (tracker_extract_info_get_graph h info) (\<lambda>(p, h'). Inr h')"
| "perform h info GetResource =
     and_then (tracker_extract_info_get_resource h info) (\<lambda>(p, h'). Inr h')"
| "perform h info GetMaxText =
     and_then (tracker_extract_info_get_max_text h info) (\<lambda>(n, h'). Inr h')"

fun perform_all :: "heap \<Rightarrow> gpointer \<Rightarrow> operation list \<Rightarrow> fault + heap" where
  "perform_all h info [] = Inr h"
| "perform_all h info (x # xs) = and_then (perform h info x) (\<lambda>h'. perform_all h' info xs)"

text \<open>
  A small heap to run the functions on: a \<^verbatim>\<open>GFile\<close> at address 0 and two
  \<^verbatim>\<open>TrackerResource\<close> objects at addresses 1 and 2, each referenced once by its creator;
  and the heap after \<open>tracker_extract_info_new\<close> has built a context at address 0 for the
  file, with content id \<^verbatim>\<open>"abc123"\<close>, mimetype \<^verbatim>\<open>"audio/mpeg"\<close>, no graph and no
  text limit.
\<close>

definition heap0 :: heap where
  "heap0 =
     \<lparr>objects = [Some \<lparr>g_type = G_TYPE_FILE, g_ref_count = 1\<rparr>,
                 Some \<lparr>g_type = TRACKER_TYPE_RESOURCE, g_ref_count = 1\<rparr>,
                 Some \<lparr>g_type = TRACKER_TYPE_RESOURCE, g_ref_count = 1\<rparr>],
      strings = [], infos = [], criticals = []\<rparr>"

definition heap1 :: heap where
  "heap1 =
     \<lparr>objects = [Some \<lparr>g_type = G_TYPE_FILE, g_ref_count = 2\<rparr>,
                 Some \<lparr>g_type = TRACKER_TYPE_RESOURCE, g_ref_count = 1\<rparr>,
                 Some \<lparr>g_type = TRACKER_TYPE_RESOURCE, g_ref_count = 1\<rparr>],
      strings = [Some ''abc123'', Some ''audio/mpeg''],
      infos = [Some \<lparr>resource = None, file = Some 0, content_id = Some 0,
                     mimetype = Some 1, graph = None, max_text = 0, ref_count = 1\<rparr>],
      criticals = []\<rparr>"

text \<open>
  The same heap after \<open>tracker_extract_info_set_resource\<close> has attached the resource at
  address 1 (\<open>heap2\<close>), after it has then attached the resource at address 2
  (\<open>heap3\<close>), and after the last \<open>tracker_extract_info_unref\<close> has destroyed the
  context (\<open>heap4\<close>).
\<close>

definition heap2 :: heap where
  "heap2 =
     \<lparr>objects = [Some \<lparr>g_type = G_TYPE_FILE, g_ref_count = 2\<rparr>,
                 Some \<lparr>g_type = TRACKER_TYPE_RESOURCE, g_ref_count = 2\<rparr>,
                 Some \<lparr>g_type = TRACKER_TYPE_RESOURCE, g_ref_count = 1\<rparr>],
      strings = [Some ''abc123'', Some ''audio/mpeg''],
      infos = [Some \<lparr>resource = Some 1, file = Some 0, content_id = Some 0,
                     mimetype = Some 1, graph = None, max_text = 0, ref_count = 1\<rparr>],
      criticals = []\<rparr>"

definition heap3 :: heap where
  "heap3 =
     \<lparr>objects = [Some \<lparr>g_type = G_TYPE_FILE, g_ref_count = 2\<rparr>,
                 Some \<lparr>g_type = TRACKER_TYPE_RESOURCE, g_ref_count = 2\<rparr>,
                 Some \<lparr>g_type = TRACKER_TYPE_RESOURCE, g_ref_count = 2\<rparr>],
      strings = [Some ''abc123'', Some ''audio/mpeg''],
      infos = [Some \<lparr>resource = Some 2, file = Some 0, content_id = Some 0,
                     mimetype = Some 1, graph = None, max_text = 0, ref_count = 1\<rparr>],
      criticals = []\<rparr>"

definition heap4 :: heap where
  "heap4 =
     \<lparr>objects = [Some \<lparr>g_type = G_TYPE_FILE, g_ref_count = 1\<rparr>,
                 Some \<lparr>g_type = TRACKER_TYPE_RESOURCE, g_ref_count = 2\<rparr>,
                 Some \<lparr>g_type = TRACKER_TYPE_RESOURCE, g_ref_count = 1\<rparr>],
      strings = [None, None],
      infos = [None],
      criticals = []\<rparr>"

section \<open>Facts about the stores and the GLib primitives\<close>

lemma cell_at_snoc: "cell_at (s @ [x]) a = (if a = length s then x else cell_at s a)"
  by (auto simp: cell_at_def nth_append)

lemma cell_at_set:
  "cell_at (cell_set s a v) b = (if b = a \<and> a < length s then Some v else cell_at s b)"
  by (auto simp: cell_at_def cell_set_def)

lemma cell_at_free: "cell_at (cell_free s a) b = (if b = a then None else cell_at s b)"
  by (auto simp: cell_at_def cell_free_def)

lemma cell_at_length: "cell_at s (length s) = None"
  by (simp add: cell_at_def)

lemma cell_at_SomeD: "cell_at s a = Some v \<Longrightarrow> a < length s"
  by (auto simp: cell_at_def split: if_splits)

lemma length_cell_set: "length (cell_set s a v) = length s"
  by (simp add: cell_set_def)

lemma length_cell_free: "length (cell_free s a) = length s"
  by (simp add: cell_free_def)

lemma cell_new_eq: "cell_new s v = (length s, s @ [Some v])"
  by (simp add: cell_new_def)

lemma cell_set_same: "cell_at s a = Some v \<Longrightarrow> cell_set s a v = s"
  by (auto simp: cell_at_def cell_set_def list_update_same_conv split: if_splits)

lemma cell_set_twice: "cell_set (cell_set s a v) a w = cell_set s a w"
  by (simp add: cell_set_def)

lemma cell_at_append:
  "cell_at (s @ t) a = (if a < length s then cell_at s a else cell_at t (a - length s))"
  by (auto simp: cell_at_def nth_append)

lemma cell_at_Nil: "cell_at [] a = None"
  by (simp add: cell_at_def)

lemma cell_at_Cons: "cell_at (x # t) a = (case a of 0 \<Rightarrow> x | Suc n \<Rightarrow> cell_at t n)"
  by (auto simp: cell_at_def split: nat.splits)

section \<open>Construction\<close>

lemma G_IS_FILE_TrueD:
  "G_IS_FILE h p = Inr True \<Longrightarrow>
   \<exists>f ob. p = Some f \<and> cell_at (objects h) f = Some ob \<and> g_type ob = G_TYPE_FILE"
  by (auto simp: G_IS_FILE_def split: option.splits)

lemma new_result:
  assumes ob: "cell_at (objects h) f = Some ob" and t: "g_type ob = G_TYPE_FILE" and s: "s \<noteq> []"
  shows "tracker_extract_info_new h (Some f) (Some s) m g mt =
     Inr (Some (length (infos h)),
          \<lparr>objects = cell_set (objects h) f (ob\<lparr>g_ref_count := g_ref_count ob + 1\<rparr>),
           strings = strings h @ [Some s]
                     @ (case m of None \<Rightarrow> [] | Some v \<Rightarrow> [Some v])
                     @ (case g of None \<Rightarrow> [] | Some v \<Rightarrow> [Some v]),
           infos = infos h @
             [Some \<lparr>resource = None, file = Some f,
                    content_id = Some (length (strings h)),
                    mimetype = (case m of None \<Rightarrow> None | Some v \<Rightarrow> Some (length (strings h) + 1)),
                    graph = (case g of None \<Rightarrow> None
                             | Some v \<Rightarrow> Some (length (strings h) + 1 +
                                                (case m of None \<Rightarrow> 0 | Some v \<Rightarrow> 1))),
                    max_text = mt, ref_count = 1\<rparr>],
           criticals = criticals h\<rparr>)"
  using ob t s
  by (cases m; cases g)
     (simp_all add: tracker_extract_info_new_def G_IS_FILE_def and_then_def g_slice_new0_def
        cell_new_eq g_object_ref_def store_info_def cell_at_snoc cell_at_set g_strdup_def
        cell_at_length length_cell_set cell_set_def)

lemma new_rejects_file:
  "G_IS_FILE h filep = Inr False \<Longrightarrow>
   tracker_extract_info_new h filep cid m g mt = Inr (None, g_critical h ''G_IS_FILE (file)'')"
  by (simp add: tracker_extract_info_new_def and_then_def)

lemma new_faults_file:
  "G_IS_FILE h filep = Inl e \<Longrightarrow> tracker_extract_info_new h filep cid m g mt = Inl e"
  by (simp add: tracker_extract_info_new_def and_then_def)

lemma new_rejects_content_id:
  "G_IS_FILE h filep = Inr True \<Longrightarrow> cid = None \<or> cid = Some [] \<Longrightarrow>
   tracker_extract_info_new h filep cid m g mt =
     Inr (None, g_critical h ''content_id && *content_id'')"
  by (auto simp add: tracker_extract_info_new_def and_then_def)

lemma new_InrD:
  assumes "tracker_extract_info_new h filep cid m g mt = Inr (Some a, h')"
  shows "\<exists>f ob s. filep = Some f \<and> cell_at (objects h) f = Some ob \<and>
           g_type ob = G_TYPE_FILE \<and> cid = Some s \<and> s \<noteq> []"
proof (cases "G_IS_FILE h filep")
  case (Inl e)
  with assms show ?thesis by (simp add: new_faults_file)
next
  case (Inr b)
  show ?thesis
  proof (cases b)
    case False
    with Inr assms show ?thesis by (simp add: new_rejects_file)
  next
    case True
    with Inr have isf: "G_IS_FILE h filep = Inr True" by simp
    have "\<not> (cid = None \<or> cid = Some [])"
    proof
      assume "cid = None \<or> cid = Some []"
      from new_rejects_content_id [OF isf this] assms show False by simp
    qed
    with G_IS_FILE_TrueD [OF isf] show ?thesis by auto
  qed
qed

text \<open>
  What \<open>tracker_extract_info_new\<close> returns is a valid context, as long as the count of
  the file object does not wrap around.
\<close>

lemma new_valid:
  assumes n: "tracker_extract_info_new h filep cid m g mt = Inr (Some a, h')"
    and c: "object_refs h filep + 1 < 2 ^ 32"
  shows "valid_info h' (Some a)"
proof -
  from new_InrD [OF n] obtain f ob s where
    f: "filep = Some f" "cell_at (objects h) f = Some ob" "g_type ob = G_TYPE_FILE"
    and s: "cid = Some s" "s \<noteq> []"
    by blast
  have lf: "f < length (objects h)" using f(2) by (rule cell_at_SomeD)
  from c f have "unat (g_ref_count ob) + unat (1 :: 32 word) < 2 ^ LENGTH(32)"
    by (simp add: object_refs_def)
  then have "unat (g_ref_count ob + 1) = unat (g_ref_count ob) + 1"
    using unat_add_lem [of "g_ref_count ob" 1] by simp
  then have nz: "g_ref_count ob + 1 \<noteq> 0"
    by (metis Suc_eq_plus1 nat.distinct(1) unat_0)
  from n show ?thesis
    unfolding f(1) s(1) new_result [OF f(2) f(3) s(2)]
    using lf nz f(3) s(2)
    by (cases m; cases g)
       (auto simp: valid_info_def cell_at_snoc cell_at_length live_object_def cell_at_set
          read_string_def cell_at_append cell_at_Cons)
qed

lemma G_IS_FILE_heap0: "G_IS_FILE heap0 (Some 0) = Inr True"
  by (simp add: G_IS_FILE_def heap0_def cell_at_def)

lemma new_heap0:
  "tracker_extract_info_new heap0 (Some 0) (Some ''abc123'') (Some ''audio/mpeg'') None 0 =
     Inr (Some 0, heap1)"
proof -
  have "cell_at (objects heap0) 0 = Some \<lparr>g_type = G_TYPE_FILE, g_ref_count = 1\<rparr>"
    by (simp add: heap0_def cell_at_def)
  from new_result [OF this, of "''abc123''" "Some ''audio/mpeg''" None 0]
  show ?thesis
    by (simp add: heap0_def heap1_def cell_set_def)
qed

text \<open>
  C2. \<open>tracker_extract_info_new\<close> returns no context when \<open>file\<close> is not a valid
  \<^verbatim>\<open>GFile\<close> or when \<open>content_id\<close> is \<^verbatim>\<open>NULL\<close> or empty: it returns \<^verbatim>\<open>NULL\<close>
  after a critical warning and allocates nothing (a dangling \<open>file\<close> pointer makes the
  type check itself fault). Otherwise it returns a newly allocated context whose
  \<open>ref_count\<close> is 1 and whose resource is \<^verbatim>\<open>NULL\<close>, so that
  \<open>tracker_extract_info_get_resource\<close> on it returns \<^verbatim>\<open>NULL\<close>.
\<close>

theorem C2_new_checks_arguments:
  "(G_IS_FILE h filep \<noteq> Inr True \<or> cid = None \<or> cid = Some [] \<longrightarrow>
      (case G_IS_FILE h filep of
         Inl e \<Rightarrow> tracker_extract_info_new h filep cid m g mt = Inl e
       | Inr b \<Rightarrow>
           (\<exists>msg. tracker_extract_info_new h filep cid m g mt =
                    Inr (None, g_critical h msg)))) \<and>
   (G_IS_FILE h filep = Inr True \<and> cid \<noteq> None \<and> cid \<noteq> Some [] \<longrightarrow>
      (\<exists>a h' i. tracker_extract_info_new h filep cid m g mt = Inr (Some a, h') \<and>
         cell_at (infos h) a = None \<and>
         cell_at (infos h') a = Some i \<and> ref_count i = 1 \<and> resource i = None \<and>
         tracker_extract_info_get_resource h' (Some a) = Inr (None, h')))"
proof (intro conjI impI)
  assume bad: "G_IS_FILE h filep \<noteq> Inr True \<or> cid = None \<or> cid = Some []"
  show "case G_IS_FILE h filep of
         Inl e \<Rightarrow> tracker_extract_info_new h filep cid m g mt = Inl e
       | Inr b \<Rightarrow>
           (\<exists>msg. tracker_extract_info_new h filep cid m g mt =
                    Inr (None, g_critical h msg))"
  proof (cases "G_IS_FILE h filep")
    case (Inl e)
    then show ?thesis by (simp add: new_faults_file)
  next
    case (Inr b)
    show ?thesis
    proof (cases b)
      case True
      with Inr bad show ?thesis by (auto simp: new_rejects_content_id)
    next
      case False
      with Inr show ?thesis by (auto simp: new_rejects_file)
    qed
  qed
next
  assume ok: "G_IS_FILE h filep = Inr True \<and> cid \<noteq> None \<and> cid \<noteq> Some []"
  then obtain f ob s where f: "filep = Some f" "cell_at (objects h) f = Some ob"
      "g_type ob = G_TYPE_FILE" and s: "cid = Some s" "s \<noteq> []"
    using G_IS_FILE_TrueD by fastforce
  show "\<exists>a h' i. tracker_extract_info_new h filep cid m g mt = Inr (Some a, h') \<and>
         cell_at (infos h) a = None \<and>
         cell_at (infos h') a = Some i \<and> ref_count i = 1 \<and> resource i = None \<and>
         tracker_extract_info_get_resource h' (Some a) = Inr (None, h')"
    unfolding f(1) s(1) new_result [OF f(2) f(3) s(2)]
    by (simp add: cell_at_snoc cell_at_length tracker_extract_info_get_resource_def)
qed

theorem C2_new_checks_arguments_witness:
  "G_IS_FILE heap0 None = Inr False \<and>
   (\<exists>msg. tracker_extract_info_new heap0 None (Some ''abc123'') None None 0 =
            Inr (None, g_critical heap0 msg)) \<and>
   G_IS_FILE heap0 (Some 1) = Inr False \<and>
   (\<exists>msg. tracker_extract_info_new heap0 (Some 1) (Some ''abc123'') None None 0 =
            Inr (None, g_critical heap0 msg)) \<and>
   G_IS_FILE heap0 (Some 0) = Inr True \<and>
   (\<exists>msg. tracker_extract_info_new heap0 (Some 0) (Some []) None None 0 =
            Inr (None, g_critical heap0 msg)) \<and>
   (\<exists>msg. tracker_extract_info_new heap0 (Some 0) None None None 0 =
            Inr (None, g_critical heap0 msg)) \<and>
   (\<exists>a h' i. tracker_extract_info_new heap0 (Some 0) (Some ''abc123'') None None 0 =
                Inr (Some a, h') \<and>
      cell_at (infos heap0) a = None \<and>
      cell_at (infos h') a = Some i \<and> ref_count i = 1 \<and> resource i = None \<and>
      tracker_extract_info_get_resource h' (Some a) = Inr (None, h'))"
proof -
  have a: "G_IS_FILE heap0 None = Inr False"
    by (simp add: G_IS_FILE_def)
  have b: "G_IS_FILE heap0 (Some 1) = Inr False"
    by (simp add: G_IS_FILE_def heap0_def cell_at_Cons)
  have c: "G_IS_FILE heap0 (Some 0) = Inr True"
    by (rule G_IS_FILE_heap0)
  from a b c
    C2_new_checks_arguments [of heap0 None "Some ''abc123''" None None 0]
    C2_new_checks_arguments [of heap0 "Some 1" "Some ''abc123''" None None 0]
    C2_new_checks_arguments [of heap0 "Some 0" "Some []" None None 0]
    C2_new_checks_arguments [of heap0 "Some 0" None None None 0]
    C2_new_checks_arguments [of heap0 "Some 0" "Some ''abc123''" None None 0]
  show ?thesis by simp
qed

section \<open>Deriving content identifiers\<close>

lemma valid_infoD:
  assumes "valid_info h (Some a)"
  shows "\<exists>i c cid. cell_at (infos h) a = Some i \<and> content_id i = Some c \<and>
           cell_at (strings h) c = Some cid \<and> cid \<noteq> [] \<and> ref_count i \<noteq> 0"
  using assms
  by (auto simp: valid_info_def read_string_def split: option.splits sum.splits)

lemma get_content_id_live:
  assumes "cell_at (infos h) a = Some i" "content_id i = Some c" "cell_at (strings h) c = Some cid"
  shows "tracker_extract_info_get_content_id h (Some a) suffix =
     Inr (Some (length (strings h)),
          h\<lparr>strings := strings h @
               [Some (case suffix of None \<Rightarrow> cid | Some s \<Rightarrow> cid @ ''/'' @ s)]\<rparr>)"
  using assms
  by (cases suffix)
     (simp_all add: tracker_extract_info_get_content_id_def read_string_def and_then_def
        g_strdup_def g_strconcat_def cell_new_eq)

lemma valid_heap1: "valid_info heap1 (Some 0)"
  by (simp add: valid_info_def heap1_def cell_at_def live_object_def read_string_def)

lemma stored_heap1: "stored_content_id heap1 0 = Some ''abc123''"
  by (simp add: stored_content_id_def heap1_def cell_at_def)

text \<open>
  C3. On every validly constructed context, \<open>tracker_extract_info_get_content_id\<close> with a
  \<^verbatim>\<open>NULL\<close> suffix returns a newly allocated copy of the stored content id, with no
  separator; with a suffix it returns a newly allocated string made of the content id,
  \<^verbatim>\<open>"/"\<close> and the suffix. With content id \<^verbatim>\<open>"abc123"\<close> and suffix \<^verbatim>\<open>"3"\<close> the
  result is \<^verbatim>\<open>"abc123/3"\<close>.
\<close>

theorem C3_get_content_id:
  assumes "valid_info h (Some a)"
  shows "\<exists>cid. stored_content_id h a = Some cid \<and>
     (\<exists>p h'. tracker_extract_info_get_content_id h (Some a) None = Inr (Some p, h') \<and>
        cell_at (strings h) p = None \<and> cell_at (strings h') p = Some cid) \<and>
     (\<forall>suffix. \<exists>p h'.
        tracker_extract_info_get_content_id h (Some a) (Some suffix) = Inr (Some p, h') \<and>
        cell_at (strings h) p = None \<and> cell_at (strings h') p = Some (cid @ ''/'' @ suffix))"
proof -
  from valid_infoD [OF assms] obtain i c cid where
    l: "cell_at (infos h) a = Some i" "content_id i = Some c" "cell_at (strings h) c = Some cid"
    by blast
  have "stored_content_id h a = Some cid"
    using l by (simp add: stored_content_id_def)
  then show ?thesis
    by (auto simp: get_content_id_live [OF l] cell_at_snoc cell_at_length)
qed

theorem C3_get_content_id_witness:
  "valid_info heap1 (Some 0) \<and> stored_content_id heap1 0 = Some ''abc123'' \<and>
   (\<exists>p h'. tracker_extract_info_get_content_id heap1 (Some 0) None = Inr (Some p, h') \<and>
      cell_at (strings heap1) p = None \<and> cell_at (strings h') p = Some ''abc123'') \<and>
   (\<exists>p h'. tracker_extract_info_get_content_id heap1 (Some 0) (Some ''3'') = Inr (Some p, h') \<and>
      cell_at (strings heap1) p = None \<and> cell_at (strings h') p = Some ''abc123/3'')"
proof -
  from C3_get_content_id [OF valid_heap1] stored_heap1
  have "(\<exists>p h'. tracker_extract_info_get_content_id heap1 (Some 0) None = Inr (Some p, h') \<and>
        cell_at (strings heap1) p = None \<and> cell_at (strings h') p = Some ''abc123'') \<and>
     (\<forall>suffix. \<exists>p h'.
        tracker_extract_info_get_content_id heap1 (Some 0) (Some suffix) = Inr (Some p, h') \<and>
        cell_at (strings heap1) p = None \<and> cell_at (strings h') p = Some (''abc123'' @ ''/'' @ suffix))"
    by simp
  then have "(\<exists>p h'. tracker_extract_info_get_content_id heap1 (Some 0) None = Inr (Some p, h') \<and>
        cell_at (strings heap1) p = None \<and> cell_at (strings h') p = Some ''abc123'') \<and>
     (\<exists>p h'.
        tracker_extract_info_get_content_id heap1 (Some 0) (Some ''3'') = Inr (Some p, h') \<and>
        cell_at (strings heap1) p = None \<and> cell_at (strings h') p = Some (''abc123'' @ ''/'' @ ''3''))"
    by blast
  with valid_heap1 stored_heap1 show ?thesis by simp
qed

text \<open>
  C9. On every validly constructed context, the empty suffix \<^verbatim>\<open>""\<close> is a suffix like any
  other: the result is the content id followed by \<^verbatim>\<open>"/"\<close>, which is not the result for
  a \<^verbatim>\<open>NULL\<close> suffix (the content id alone). Every suffix is appended as it is, neither
  normalised nor escaped.
\<close>

theorem C9_empty_suffix:
  assumes "valid_info h (Some a)"
  shows "\<exists>cid p h' q h''. stored_content_id h a = Some cid \<and>
     tracker_extract_info_get_content_id h (Some a) (Some []) = Inr (Some p, h') \<and>
     cell_at (strings h') p = Some (cid @ ''/'') \<and>
     tracker_extract_info_get_content_id h (Some a) None = Inr (Some q, h'') \<and>
     cell_at (strings h'') q = Some cid \<and>
     cell_at (strings h') p \<noteq> cell_at (strings h'') q \<and>
     (\<forall>suffix. \<exists>r k.
        tracker_extract_info_get_content_id h (Some a) (Some suffix) = Inr (Some r, k) \<and>
        cell_at (strings k) r = Some (cid @ ''/'' @ suffix))"
proof -
  from valid_infoD [OF assms] obtain i c cid where
    l: "cell_at (infos h) a = Some i" "content_id i = Some c" "cell_at (strings h) c = Some cid"
    by blast
  have "stored_content_id h a = Some cid"
    using l by (simp add: stored_content_id_def)
  then show ?thesis
    by (auto simp: get_content_id_live [OF l] cell_at_snoc cell_at_length)
qed

theorem C9_empty_suffix_witness:
  "valid_info heap1 (Some 0) \<and>
   (\<exists>p h' q h''. 
     tracker_extract_info_get_content_id heap1 (Some 0) (Some []) = Inr (Some p, h') \<and>
     cell_at (strings h') p = Some ''abc123/'' \<and>
     tracker_extract_info_get_content_id heap1 (Some 0) None = Inr (Some q, h'') \<and>
     cell_at (strings h'') q = Some ''abc123'' \<and>
     (\<exists>r k.
        tracker_extract_info_get_content_id heap1 (Some 0) (Some ''a/../b c'') = Inr (Some r, k) \<and>
        cell_at (strings k) r = Some ''abc123/a/../b c''))"
proof -
  from C9_empty_suffix [OF valid_heap1] stored_heap1
  obtain p h' q h'' where
    *: "tracker_extract_info_get_content_id heap1 (Some 0) (Some []) = Inr (Some p, h')"
     "cell_at (strings h') p = Some (''abc123'' @ ''/'')"
     "tracker_extract_info_get_content_id heap1 (Some 0) None = Inr (Some q, h'')"
     "cell_at (strings h'') q = Some ''abc123''"
     "\<forall>suffix. \<exists>r k.
        tracker_extract_info_get_content_id heap1 (Some 0) (Some suffix) = Inr (Some r, k) \<and>
        cell_at (strings k) r = Some (''abc123'' @ ''/'' @ suffix)"
    by auto
  from *(5) obtain r k where
    "tracker_extract_info_get_content_id heap1 (Some 0) (Some ''a/../b c'') = Inr (Some r, k)"
    "cell_at (strings k) r = Some (''abc123'' @ ''/'' @ ''a/../b c'')"
    by blast
  with * valid_heap1 show ?thesis by simp
qed

lemma get_content_id_cases:
  assumes "tracker_extract_info_get_content_id h info suffix = Inr (p, h1)"
  shows "(info = None \<and> p = None \<and> h1 = g_critical h ''info != NULL'') \<or>
         (\<exists>a i. info = Some a \<and> cell_at (infos h) a = Some i \<and> content_id i = None \<and>
                 p = None \<and> h1 = h) \<or>
         (\<exists>a i c cid. info = Some a \<and> cell_at (infos h) a = Some i \<and> content_id i = Some c \<and>
                 cell_at (strings h) c = Some cid \<and> p = Some (length (strings h)) \<and>
                 h1 = h\<lparr>strings := strings h @
                        [Some (case suffix of None \<Rightarrow> cid | Some s \<Rightarrow> cid @ ''/'' @ s)]\<rparr>)"
  using assms
  by (cases suffix)
     (auto simp: tracker_extract_info_get_content_id_def read_string_def and_then_def
        g_strdup_def g_strconcat_def cell_new_eq split: option.splits)

lemma get_content_id_null:
  "tracker_extract_info_get_content_id h None suffix = Inr (None, g_critical h ''info != NULL'')"
  by (simp add: tracker_extract_info_get_content_id_def)

lemma get_content_id_no_id:
  "cell_at (infos h) a = Some i \<Longrightarrow> content_id i = None \<Longrightarrow>
   tracker_extract_info_get_content_id h (Some a) suffix = Inr (None, h)"
  by (cases suffix)
     (simp_all add: tracker_extract_info_get_content_id_def read_string_def and_then_def
        g_strdup_def g_strconcat_def)

text \<open>
  C5. \<open>tracker_extract_info_get_content_id\<close> is deterministic and leaves the context alone:
  when a call returns, a second call with the same context and suffix returns too, and
  the two results are equal strings (or both \<^verbatim>\<open>NULL\<close>); the call changes no context
  struct, no object and no string that existed before it (it only allocates its result).
\<close>

theorem C5_get_content_id_pure:
  assumes "tracker_extract_info_get_content_id h info suffix = Inr (p1, h1)"
  shows "\<exists>p2 h2. tracker_extract_info_get_content_id h1 info suffix = Inr (p2, h2) \<and>
           (\<exists>r. read_string h1 p1 = Inr r \<and> read_string h2 p1 = Inr r \<and>
                read_string h2 p2 = Inr r) \<and>
           infos h1 = infos h \<and> objects h1 = objects h \<and>
           (\<forall>q s. cell_at (strings h) q = Some s \<longrightarrow> cell_at (strings h1) q = Some s)"
  using get_content_id_cases [OF assms]
proof (elim disjE exE conjE)
  assume "info = None" "p1 = None" "h1 = g_critical h ''info != NULL''"
  then show ?thesis
    by (simp add: get_content_id_null read_string_def g_critical_def)
next
  fix a i
  assume "info = Some a" "cell_at (infos h) a = Some i" "content_id i = None" "p1 = None" "h1 = h"
  then show ?thesis
    by (simp add: get_content_id_no_id read_string_def)
next
  fix a i c cid
  assume a: "info = Some a" "p1 = Some (length (strings h))"
    and l: "cell_at (infos h) a = Some i" "content_id i = Some c" "cell_at (strings h) c = Some cid"
    and h1: "h1 = h\<lparr>strings := strings h @
                 [Some (case suffix of None \<Rightarrow> cid | Some s \<Rightarrow> cid @ ''/'' @ s)]\<rparr>"
  have c: "c < length (strings h)"
    using l(3) by (rule cell_at_SomeD)
  have l1: "cell_at (infos h1) a = Some i" "cell_at (strings h1) c = Some cid"
    using l c by (simp_all add: h1 cell_at_snoc)
  have frame: "\<forall>q s. cell_at (strings h) q = Some s \<longrightarrow> cell_at (strings h1) q = Some s"
    by (auto simp: h1 cell_at_snoc cell_at_length)
  show ?thesis
    unfolding a get_content_id_live [OF l1(1) l(2) l1(2)]
    using frame by (simp add: h1 read_string_def cell_at_append cell_at_Cons)
qed

theorem C5_get_content_id_pure_witness:
  "tracker_extract_info_get_content_id heap1 (Some 0) (Some ''3'') =
     Inr (Some 2, heap1\<lparr>strings := strings heap1 @ [Some ''abc123/3'']\<rparr>) \<and>
   (\<exists>p2 h2. tracker_extract_info_get_content_id
               (heap1\<lparr>strings := strings heap1 @ [Some ''abc123/3'']\<rparr>) (Some 0) (Some ''3'') =
             Inr (p2, h2) \<and>
      (\<exists>r. read_string (heap1\<lparr>strings := strings heap1 @ [Some ''abc123/3'']\<rparr>) (Some 2) = Inr r \<and>
           read_string h2 (Some 2) = Inr r \<and> read_string h2 p2 = Inr r) \<and>
      infos (heap1\<lparr>strings := strings heap1 @ [Some ''abc123/3'']\<rparr>) = infos heap1 \<and>
      objects (heap1\<lparr>strings := strings heap1 @ [Some ''abc123/3'']\<rparr>) = objects heap1)"
proof -
  have l: "cell_at (infos heap1) 0 =
             Some \<lparr>resource = None, file = Some 0, content_id = Some 0,
                   mimetype = Some 1, graph = None, max_text = 0, ref_count = 1\<rparr>"
      "cell_at (strings heap1) 0 = Some ''abc123''"
    by (simp_all add: heap1_def cell_at_def)
  have c: "tracker_extract_info_get_content_id heap1 (Some 0) (Some ''3'') =
     Inr (Some 2, heap1\<lparr>strings := strings heap1 @ [Some ''abc123/3'']\<rparr>)"
    using get_content_id_live [OF l(1) _ l(2), of "Some ''3''"]
    by (simp add: heap1_def)
  from C5_get_content_id_pure [OF c] c show ?thesis by blast
qed

section \<open>Attaching a resource, and the accessors\<close>

lemma g_object_ref_frame:
  "g_object_ref h r = Inr (p, h1) \<Longrightarrow> infos h1 = infos h \<and> strings h1 = strings h"
  by (auto simp: g_object_ref_def g_critical_def split: option.splits)

lemma g_object_ref_live:
  "cell_at (objects h) r = Some ob \<Longrightarrow>
   g_object_ref h (Some r) =
     Inr (Some r, h\<lparr>objects := cell_set (objects h) r (ob\<lparr>g_ref_count := g_ref_count ob + 1\<rparr>)\<rparr>)"
  by (simp add: g_object_ref_def)

lemma live_objectD:
  "live_object h t p \<Longrightarrow>
   \<exists>r ob. p = Some r \<and> cell_at (objects h) r = Some ob \<and> g_type ob = t \<and> g_ref_count ob \<noteq> 0"
  by (auto simp: live_object_def split: option.splits)

lemma set_resource_live:
  assumes "cell_at (infos h) a = Some i" and "cell_at (objects h) r = Some ob"
  shows "tracker_extract_info_set_resource h (Some a) (Some r) =
     Inr (h\<lparr>objects := cell_set (objects h) r (ob\<lparr>g_ref_count := g_ref_count ob + 1\<rparr>),
            infos := cell_set (infos h) a (i\<lparr>resource := Some r\<rparr>)\<rparr>)"
  using assms
  by (simp add: tracker_extract_info_set_resource_def g_object_ref_live and_then_def store_info_def)

lemma set_resource_InrD:
  assumes "tracker_extract_info_set_resource h info r = Inr h'"
  shows "\<exists>a i p h1. info = Some a \<and> g_object_ref h r = Inr (p, h1) \<and>
           cell_at (infos h) a = Some i \<and>
           h' = h1\<lparr>infos := cell_set (infos h) a (i\<lparr>resource := r\<rparr>)\<rparr>"
proof (cases "g_object_ref h r")
  case (Inl e)
  with assms show ?thesis
    by (simp add: tracker_extract_info_set_resource_def and_then_def)
next
  case (Inr x)
  obtain p h1 where x: "x = (p, h1)" by (cases x)
  from g_object_ref_frame [OF Inr [unfolded x]] have fr: "infos h1 = infos h" by simp
  from assms Inr x fr show ?thesis
    by (auto simp: tracker_extract_info_set_resource_def and_then_def store_info_def
          split: option.splits)
qed

text \<open>
  C10. \<open>tracker_extract_info_set_resource\<close> changes only the \<open>resource\<close> field of the
  context: when it returns, the struct holds the new resource pointer and its \<open>file\<close>,
  \<open>content_id\<close>, \<open>mimetype\<close>, \<open>graph\<close>, \<open>max_text\<close> and \<open>ref_count\<close> fields are what
  they were; the owned strings and every other context are untouched.
\<close>

theorem C10_set_resource_frame:
  assumes "tracker_extract_info_set_resource h info r = Inr h'"
  shows "\<exists>a i i'. info = Some a \<and> cell_at (infos h) a = Some i \<and>
           cell_at (infos h') a = Some i' \<and> resource i' = r \<and>
           file i' = file i \<and> content_id i' = content_id i \<and> mimetype i' = mimetype i \<and>
           graph i' = graph i \<and> max_text i' = max_text i \<and> ref_count i' = ref_count i \<and>
           strings h' = strings h \<and>
           (\<forall>b. b \<noteq> a \<longrightarrow> cell_at (infos h') b = cell_at (infos h) b)"
proof -
  from set_resource_InrD [OF assms] obtain a i p h1 where
    *: "info = Some a" "g_object_ref h r = Inr (p, h1)" "cell_at (infos h) a = Some i"
       "h' = h1\<lparr>infos := cell_set (infos h) a (i\<lparr>resource := r\<rparr>)\<rparr>"
    by blast
  from g_object_ref_frame [OF *(2)] have fr: "strings h1 = strings h" by simp
  have "a < length (infos h)" using *(3) by (rule cell_at_SomeD)
  with * fr show ?thesis
    by (simp add: cell_at_set)
qed

theorem C10_set_resource_frame_witness:
  "tracker_extract_info_set_resource heap1 (Some 0) (Some 1) =
     Inr (heap1\<lparr>objects := cell_set (objects heap1) 1
                    \<lparr>g_type = TRACKER_TYPE_RESOURCE, g_ref_count = 2\<rparr>,
                 infos := cell_set (infos heap1) 0
                    \<lparr>resource = Some 1, file = Some 0, content_id = Some 0,
                     mimetype = Some 1, graph = None, max_text = 0, ref_count = 1\<rparr>\<rparr>) \<and>
   (\<exists>i i'. cell_at (infos heap1) 0 = Some i \<and>
      cell_at (infos (heap1\<lparr>objects := cell_set (objects heap1) 1
                    \<lparr>g_type = TRACKER_TYPE_RESOURCE, g_ref_count = 2\<rparr>,
                 infos := cell_set (infos heap1) 0
                    \<lparr>resource = Some 1, file = Some 0, content_id = Some 0,
                     mimetype = Some 1, graph = None, max_text = 0, ref_count = 1\<rparr>\<rparr>)) 0 = Some i' \<and>
      resource i' = Some 1 \<and>
      file i' = file i \<and> content_id i' = content_id i \<and> mimetype i' = mimetype i \<and>
      graph i' = graph i \<and> max_text i' = max_text i \<and> ref_count i' = ref_count i)"
proof -
  have l: "cell_at (infos heap1) 0 =
             Some \<lparr>resource = None, file = Some 0, content_id = Some 0,
                   mimetype = Some 1, graph = None, max_text = 0, ref_count = 1\<rparr>"
      "cell_at (objects heap1) 1 = Some \<lparr>g_type = TRACKER_TYPE_RESOURCE, g_ref_count = 1\<rparr>"
    by (simp_all add: heap1_def cell_at_def)
  have c: "tracker_extract_info_set_resource heap1 (Some 0) (Some 1) =
     Inr (heap1\<lparr>objects := cell_set (objects heap1) 1
                    \<lparr>g_type = TRACKER_TYPE_RESOURCE, g_ref_count = 2\<rparr>,
                 infos := cell_set (infos heap1) 0
                    \<lparr>resource = Some 1, file = Some 0, content_id = Some 0,
                     mimetype = Some 1, graph = None, max_text = 0, ref_count = 1\<rparr>\<rparr>)"
    using set_resource_live [OF l] by simp
  from C10_set_resource_frame [OF c] c show ?thesis by auto
qed

text \<open>
  C6. On a validly constructed context no function of the accessor surface fails:
  \<open>get_file\<close>, \<open>get_content_id\<close> (for every suffix), \<open>get_mimetype\<close>, \<open>get_graph\<close>,
  \<open>get_max_text\<close> and \<open>get_resource\<close> return the field (or the derived string) without
  a fault and without a critical warning, and so does \<open>set_resource\<close> for a live
  \<^verbatim>\<open>TrackerResource\<close>, after which \<open>get_resource\<close> returns that resource.
\<close>

theorem C6_total_on_valid:
  assumes "valid_info h (Some a)" and "live_object h TRACKER_TYPE_RESOURCE r"
  shows "\<exists>i. cell_at (infos h) a = Some i \<and>
     tracker_extract_info_get_file h (Some a) = Inr (file i, h) \<and>
     (\<forall>suffix. \<exists>p h'. tracker_extract_info_get_content_id h (Some a) suffix = Inr (Some p, h') \<and>
        criticals h' = criticals h) \<and>
     tracker_extract_info_get_mimetype h (Some a) = Inr (mimetype i, h) \<and>
     tracker_extract_info_get_graph h (Some a) = Inr (graph i, h) \<and>
     tracker_extract_info_get_max_text h (Some a) = Inr (max_text i, h) \<and>
     tracker_extract_info_get_resource h (Some a) = Inr (resource i, h) \<and>
     (\<exists>h'. tracker_extract_info_set_resource h (Some a) r = Inr h' \<and>
        criticals h' = criticals h \<and>
        tracker_extract_info_get_resource h' (Some a) = Inr (r, h'))"
proof -
  from valid_infoD [OF assms(1)] obtain i c cid where
    l: "cell_at (infos h) a = Some i" "content_id i = Some c" "cell_at (strings h) c = Some cid"
    by blast
  from live_objectD [OF assms(2)] obtain ra ob where
    r: "r = Some ra" "cell_at (objects h) ra = Some ob"
    by blast
  have a: "a < length (infos h)" using l(1) by (rule cell_at_SomeD)
  show ?thesis
    using l(1) a
    by (simp add: tracker_extract_info_get_file_def tracker_extract_info_get_mimetype_def
          tracker_extract_info_get_graph_def tracker_extract_info_get_max_text_def
          tracker_extract_info_get_resource_def get_content_id_live [OF l]
          r(1) set_resource_live [OF l(1) r(2)] cell_at_set)
qed

lemma live_heap1: "live_object heap1 TRACKER_TYPE_RESOURCE (Some 1)"
  by (simp add: live_object_def heap1_def cell_at_def)

theorem C6_total_on_valid_witness:
  "valid_info heap1 (Some 0) \<and> live_object heap1 TRACKER_TYPE_RESOURCE (Some 1) \<and>
   (\<exists>i. cell_at (infos heap1) 0 = Some i \<and>
     tracker_extract_info_get_file heap1 (Some 0) = Inr (file i, heap1) \<and>
     (\<exists>p h'. tracker_extract_info_get_content_id heap1 (Some 0) None = Inr (Some p, h') \<and>
        criticals h' = criticals heap1) \<and>
     tracker_extract_info_get_mimetype heap1 (Some 0) = Inr (mimetype i, heap1) \<and>
     tracker_extract_info_get_graph heap1 (Some 0) = Inr (graph i, heap1) \<and>
     tracker_extract_info_get_max_text heap1 (Some 0) = Inr (max_text i, heap1) \<and>
     tracker_extract_info_get_resource heap1 (Some 0) = Inr (resource i, heap1) \<and>
     (\<exists>h'. tracker_extract_info_set_resource heap1 (Some 0) (Some 1) = Inr h' \<and>
        criticals h' = criticals heap1 \<and>
        tracker_extract_info_get_resource h' (Some 0) = Inr (Some 1, h')))"
  using C6_total_on_valid [OF valid_heap1 live_heap1] valid_heap1 live_heap1
  by blast

section \<open>Reference counting and destruction\<close>

lemma ref_live:
  "cell_at (infos h) a = Some i \<Longrightarrow>
   tracker_extract_info_ref h (Some a) =
     Inr (Some a, h\<lparr>infos := cell_set (infos h) a (i\<lparr>ref_count := ref_count i + 1\<rparr>)\<rparr>)"
  by (simp add: tracker_extract_info_ref_def store_info_def)

lemma unref_keep:
  "cell_at (infos h) a = Some i \<Longrightarrow> ref_count i \<noteq> 1 \<Longrightarrow>
   tracker_extract_info_unref h (Some a) =
     Inr (h\<lparr>infos := cell_set (infos h) a (i\<lparr>ref_count := ref_count i - 1\<rparr>)\<rparr>)"
  by (simp add: tracker_extract_info_unref_def Let_def)

lemma ref_unref:
  assumes l: "cell_at (infos h) a = Some i" and nz: "ref_count i \<noteq> 0"
  shows "\<exists>h1. tracker_extract_info_ref h (Some a) = Inr (Some a, h1) \<and>
           cell_at (infos h1) a = Some (i\<lparr>ref_count := ref_count i + 1\<rparr>) \<and>
           tracker_extract_info_unref h1 (Some a) = Inr h"
proof -
  let ?h1 = "h\<lparr>infos := cell_set (infos h) a (i\<lparr>ref_count := ref_count i + 1\<rparr>)\<rparr>"
  have a: "a < length (infos h)" using l by (rule cell_at_SomeD)
  have l1: "cell_at (infos ?h1) a = Some (i\<lparr>ref_count := ref_count i + 1\<rparr>)"
    using a by (simp add: cell_at_set)
  have "ref_count (i\<lparr>ref_count := ref_count i + 1\<rparr>) \<noteq> 1"
    using nz by simp
  from unref_keep [OF l1 this]
  have "tracker_extract_info_unref ?h1 (Some a) = Inr h"
    using l by (simp add: cell_set_twice cell_set_same)
  with ref_live [OF l] l1 show ?thesis by blast
qed

lemma acquire_n_live:
  "cell_at (infos h) a = Some i \<Longrightarrow>
   acquire_n n h (Some a) =
     Inr (h\<lparr>infos := cell_set (infos h) a (i\<lparr>ref_count := ref_count i + of_nat n\<rparr>)\<rparr>)"
proof (induction n arbitrary: h i)
  case 0
  then show ?case by (simp add: cell_set_same)
next
  case (Suc n)
  let ?i1 = "i\<lparr>ref_count := ref_count i + 1\<rparr>"
  let ?h1 = "h\<lparr>infos := cell_set (infos h) a ?i1\<rparr>"
  have a: "a < length (infos h)" using Suc.prems by (rule cell_at_SomeD)
  have l1: "cell_at (infos ?h1) a = Some ?i1"
    using a by (simp add: cell_at_set)
  show ?case
    by (simp add: ref_live [OF Suc.prems] and_then_def Suc.IH [OF l1] cell_set_twice add.assoc)
qed

lemma release_n_live:
  "cell_at (infos h) a = Some i \<Longrightarrow> k < unat (ref_count i) \<Longrightarrow>
   release_n k h (Some a) =
     Inr (h\<lparr>infos := cell_set (infos h) a (i\<lparr>ref_count := ref_count i - of_nat k\<rparr>)\<rparr>)"
proof (induction k arbitrary: h i)
  case 0
  then show ?case by (simp add: cell_set_same)
next
  case (Suc k)
  let ?i1 = "i\<lparr>ref_count := ref_count i - 1\<rparr>"
  let ?h1 = "h\<lparr>infos := cell_set (infos h) a ?i1\<rparr>"
  have a: "a < length (infos h)" using Suc.prems(1) by (rule cell_at_SomeD)
  have l1: "cell_at (infos ?h1) a = Some ?i1"
    using a by (simp add: cell_at_set)
  have ne: "ref_count i \<noteq> 1" using Suc.prems(2) by auto
  have nz: "ref_count i \<noteq> 0" using Suc.prems(2) by auto
  have "unat (ref_count i - 1) = unat (ref_count i) - 1"
    using nz by (simp add: unat_minus_one)
  then have k: "k < unat (ref_count ?i1)" using Suc.prems(2) by simp
  show ?case
    by (simp add: unref_keep [OF Suc.prems(1) ne] and_then_def Suc.IH [OF l1 k] cell_set_twice
          diff_diff_eq add.commute)
qed

lemma release_n_snoc:
  "release_n (Suc k) h info =
     and_then (release_n k h info) (\<lambda>h'. tracker_extract_info_unref h' info)"
proof (induction k arbitrary: h)
  case 0
  show ?case by (cases "tracker_extract_info_unref h info") (simp_all add: and_then_def)
next
  case (Suc k)
  show ?case
    apply (subst release_n.simps)
    apply (subst Suc.IH)
    apply (cases "tracker_extract_info_unref h info")
    apply (simp_all add: and_then_def)
    done
qed

lemma g_object_unref_live:
  "cell_at (objects h) f = Some ob \<Longrightarrow>
   g_object_unref h (Some f) =
     Inr (h\<lparr>objects := (if g_ref_count ob = 1 then cell_free (objects h) f
                         else cell_set (objects h) f (ob\<lparr>g_ref_count := g_ref_count ob - 1\<rparr>))\<rparr>)"
  by (simp add: g_object_unref_def)

lemma g_free_live:
  "cell_at (strings h) c = Some s \<Longrightarrow>
   g_free h (Some c) = Inr (h\<lparr>strings := cell_free (strings h) c\<rparr>)"
  by (simp add: g_free_def)

lemma g_free_null: "g_free h None = Inr h"
  by (simp add: g_free_def)

lemma read_string_live:
  "read_string h p \<noteq> Inl InvalidPointer \<Longrightarrow> p = Some m \<Longrightarrow> \<exists>s. cell_at (strings h) m = Some s"
  by (auto simp: read_string_def split: option.splits)

lemma unat_dec: "(c :: 32 word) \<noteq> 0 \<Longrightarrow> unat (c - 1) = unat c - 1"
  by (simp add: unat_minus_one)

lemma cell_free_set: "cell_free (cell_set s a v) a = cell_free s a"
  by (simp add: cell_free_def cell_set_def)

lemma unref_destroy:
  assumes v: "valid_info h (Some a)" and l: "cell_at (infos h) a = Some i"
    and one: "ref_count i = 1"
  shows "\<exists>h'. tracker_extract_info_unref h (Some a) = Inr h' \<and>
     cell_at (infos h') a = None \<and>
     (\<forall>b. b \<noteq> a \<longrightarrow> cell_at (infos h') b = cell_at (infos h) b) \<and>
     0 < object_refs h (file i) \<and>
     object_refs h' (file i) = object_refs h (file i) - 1 \<and>
     (resource i \<noteq> None \<longrightarrow>
        0 < object_refs h (resource i) \<and>
        object_refs h' (resource i) = object_refs h (resource i) - 1) \<and>
     (\<forall>p. Some p \<in> {content_id i, mimetype i, graph i} \<longrightarrow>
        cell_at (strings h) p \<noteq> None \<and> cell_at (strings h') p = None) \<and>
     (\<forall>p. Some p \<notin> {content_id i, mimetype i, graph i} \<longrightarrow>
        cell_at (strings h') p = cell_at (strings h) p) \<and>
     (\<forall>q. Some q \<noteq> file i \<and> Some q \<noteq> resource i \<longrightarrow>
        cell_at (objects h') q = cell_at (objects h) q) \<and>
     criticals h' = criticals h"
proof -
  from v l have
    vf: "live_object h G_TYPE_FILE (file i)" and
    vc: "case read_string h (content_id i) of Inr (Some s) \<Rightarrow> s \<noteq> [] | _ \<Rightarrow> False" and
    vm: "read_string h (mimetype i) \<noteq> Inl InvalidPointer" and
    vg: "read_string h (graph i) \<noteq> Inl InvalidPointer" and
    vr: "resource i = None \<or> live_object h TRACKER_TYPE_RESOURCE (resource i)" and
    d: "content_id i \<noteq> mimetype i" "content_id i \<noteq> graph i"
       "mimetype i = graph i \<longrightarrow> mimetype i = None"
    by (simp_all add: valid_info_def)
  from vf obtain f fo where f: "file i = Some f" "cell_at (objects h) f = Some fo"
      "g_type fo = G_TYPE_FILE" "g_ref_count fo \<noteq> 0"
    by (auto simp: live_object_def split: option.splits)
  from vc obtain c cid where c: "content_id i = Some c" "cell_at (strings h) c = Some cid"
    by (auto simp: read_string_def split: option.splits sum.splits)
  define S1 where "S1 = cell_free (strings h) c"
  define S2 where "S2 = (case mimetype i of None \<Rightarrow> S1 | Some m \<Rightarrow> cell_free S1 m)"
  define S3 where "S3 = (case graph i of None \<Rightarrow> S2 | Some g \<Rightarrow> cell_free S2 g)"
  define O1 where "O1 = (if g_ref_count fo = 1 then cell_free (objects h) f
       else cell_set (objects h) f (fo\<lparr>g_ref_count := g_ref_count fo - 1\<rparr>))"
  define O2 where "O2 = (case resource i of None \<Rightarrow> O1
       | Some r \<Rightarrow> (case cell_at (objects h) r of None \<Rightarrow> O1
           | Some ro \<Rightarrow> if g_ref_count ro = 1 then cell_free O1 r
               else cell_set O1 r (ro\<lparr>g_ref_count := g_ref_count ro - 1\<rparr>)))"
  define i0 where "i0 = i\<lparr>ref_count := 0\<rparr>"
  define h1 where "h1 = h\<lparr>infos := cell_set (infos h) a i0\<rparr>"
  have a: "a < length (infos h)" using l by (rule cell_at_SomeD)
  have z: "ref_count i0 = 0" by (simp add: i0_def)
  have s1: "g_object_unref h1 (file i0) = Inr (h1\<lparr>objects := O1\<rparr>)"
    using g_object_unref_live [of h1 f fo] f by (simp add: h1_def i0_def O1_def)
  have s2: "g_free (h1\<lparr>objects := O1\<rparr>) (content_id i0) = Inr (h1\<lparr>objects := O1, strings := S1\<rparr>)"
    using g_free_live [of "h1\<lparr>objects := O1\<rparr>" c cid] c by (simp add: h1_def i0_def S1_def)
  have s3: "g_free (h1\<lparr>objects := O1, strings := S1\<rparr>) (mimetype i0) =
              Inr (h1\<lparr>objects := O1, strings := S2\<rparr>)"
  proof (cases "mimetype i")
    case None
    then show ?thesis by (simp add: i0_def g_free_null S2_def)
  next
    case (Some m)
    from read_string_live [OF vm Some] obtain s where "cell_at (strings h) m = Some s" ..
    moreover have "m \<noteq> c" using d(1) c(1) Some by auto
    ultimately have "cell_at S1 m = Some s" by (simp add: S1_def cell_at_free)
    then show ?thesis
      using g_free_live [of "h1\<lparr>objects := O1, strings := S1\<rparr>" m s] Some
      by (simp add: i0_def S2_def)
  qed
  have s4: "g_free (h1\<lparr>objects := O1, strings := S2\<rparr>) (graph i0) =
              Inr (h1\<lparr>objects := O1, strings := S3\<rparr>)"
  proof (cases "graph i")
    case None
    then show ?thesis by (simp add: i0_def g_free_null S3_def)
  next
    case (Some g)
    from read_string_live [OF vg Some] obtain s where "cell_at (strings h) g = Some s" ..
    moreover have "g \<noteq> c" using d(2) c(1) Some by auto
    moreover have "mimetype i \<noteq> Some g" using d(3) Some by auto
    ultimately have "cell_at S2 g = Some s"
      by (auto simp: S1_def S2_def cell_at_free split: option.splits)
    then show ?thesis
      using g_free_live [of "h1\<lparr>objects := O1, strings := S2\<rparr>" g s] Some
      by (simp add: i0_def S3_def)
  qed
  have s5: "(if resource i0 \<noteq> None
             then g_object_unref (h1\<lparr>objects := O1, strings := S3\<rparr>) (resource i0)
             else Inr (h1\<lparr>objects := O1, strings := S3\<rparr>)) =
            Inr (h1\<lparr>objects := O2, strings := S3\<rparr>)"
  proof (cases "resource i")
    case None
    then show ?thesis by (simp add: i0_def O2_def)
  next
    case (Some r)
    with vr obtain ro where ro: "cell_at (objects h) r = Some ro"
        "g_type ro = TRACKER_TYPE_RESOURCE"
      by (auto simp: live_object_def split: option.splits)
    have "r \<noteq> f" using ro f by auto
    then have "cell_at O1 r = Some ro"
      using ro by (simp add: O1_def cell_at_free cell_at_set)
    then show ?thesis
      using g_object_unref_live [of "h1\<lparr>objects := O1, strings := S3\<rparr>" r ro] Some ro
      by (simp add: i0_def O2_def)
  qed
  have s6: "g_slice_free (h1\<lparr>objects := O2, strings := S3\<rparr>) a =
       Inr (h\<lparr>objects := O2, strings := S3, infos := cell_free (infos h) a\<rparr>)"
    using a by (simp add: g_slice_free_def h1_def cell_at_set cell_free_set)
  have res: "tracker_extract_info_unref h (Some a) =
       Inr (h\<lparr>objects := O2, strings := S3, infos := cell_free (infos h) a\<rparr>)"
    unfolding tracker_extract_info_unref_def
    using l one z s1 s2 s3 s4 s5 s6
    by (simp add: Let_def and_then_def i0_def [symmetric] h1_def [symmetric])
  let ?h' = "h\<lparr>objects := O2, strings := S3, infos := cell_free (infos h) a\<rparr>"
  have rr: "resource i = None \<or>
      (\<exists>r ro. resource i = Some r \<and> cell_at (objects h) r = Some ro \<and>
         g_ref_count ro \<noteq> 0 \<and> r \<noteq> f)"
    using vr f by (auto simp: live_object_def split: option.splits)
  have mm: "mimetype i = None \<or> (\<exists>m s. mimetype i = Some m \<and> cell_at (strings h) m = Some s)"
    using vm by (auto simp: read_string_def split: option.splits)
  have gg: "graph i = None \<or> (\<exists>g s. graph i = Some g \<and> cell_at (strings h) g = Some s)"
    using vg by (auto simp: read_string_def split: option.splits)
  have p1: "cell_at (infos ?h') a = None"
    by (simp add: cell_at_free)
  have p2: "\<forall>b. b \<noteq> a \<longrightarrow> cell_at (infos ?h') b = cell_at (infos h) b"
    by (simp add: cell_at_free)
  have p3: "0 < object_refs h (file i)"
    using f by (simp add: object_refs_def unat_gt_0)
  have p4: "object_refs ?h' (file i) = object_refs h (file i) - 1"
    using f rr
    by (auto simp: object_refs_def O2_def O1_def cell_at_free cell_at_set unat_dec
          dest: cell_at_SomeD)
  have p5: "resource i \<noteq> None \<longrightarrow>
        0 < object_refs h (resource i) \<and>
        object_refs ?h' (resource i) = object_refs h (resource i) - 1"
    using f rr
    by (auto simp: object_refs_def O2_def O1_def cell_at_free cell_at_set unat_dec unat_gt_0
          length_cell_set length_cell_free dest: cell_at_SomeD)
  have p6: "\<forall>p. Some p \<in> {content_id i, mimetype i, graph i} \<longrightarrow>
        cell_at (strings h) p \<noteq> None \<and> cell_at (strings ?h') p = None"
    using c mm gg
    by (auto simp: S3_def S2_def S1_def cell_at_free)
  have p7: "\<forall>p. Some p \<notin> {content_id i, mimetype i, graph i} \<longrightarrow>
        cell_at (strings ?h') p = cell_at (strings h) p"
    using c
    by (auto simp: S3_def S2_def S1_def cell_at_free split: option.splits)
  have p8: "\<forall>q. Some q \<noteq> file i \<and> Some q \<noteq> resource i \<longrightarrow>
        cell_at (objects ?h') q = cell_at (objects h) q"
    using f
    by (auto simp: O2_def O1_def cell_at_free cell_at_set split: option.splits)
  have p9: "criticals ?h' = criticals h"
    by simp
  from res p1 p2 p3 p4 p5 p6 p7 p8 p9 show ?thesis
    by blast
qed

lemma unat_plus_nat:
  "unat (c :: 32 word) + n < 2 ^ 32 \<Longrightarrow> unat (c + of_nat n) = unat c + n"
proof -
  assume b: "unat c + n < 2 ^ 32"
  then have n: "n < 2 ^ 32" by simp
  have "unat (of_nat n :: 32 word) = n"
    using n by (simp add: unat_of_nat)
  moreover from this b have "unat c + unat (of_nat n :: 32 word) < 2 ^ LENGTH(32)" by simp
  ultimately show ?thesis
    using unat_add_lem [of c "of_nat n"] by simp
qed

lemma word_eq_1: "unat (c :: 32 word) = 1 \<Longrightarrow> c = 1"
  by (simp add: word_unat_eq_iff)

lemma live_object_infos: "live_object (h\<lparr>infos := x\<rparr>) t p = live_object h t p"
  by (cases p) (simp_all add: live_object_def)

lemma read_string_infos: "read_string (h\<lparr>infos := x\<rparr>) p = read_string h p"
  by (cases p) (simp_all add: read_string_def)

lemma valid_info_count:
  assumes "valid_info h (Some a)" and "cell_at (infos h) a = Some i" and "c \<noteq> 0"
  shows "valid_info (h\<lparr>infos := cell_set (infos h) a (i\<lparr>ref_count := c\<rparr>)\<rparr>) (Some a)"
proof -
  have a: "a < length (infos h)" using assms(2) by (rule cell_at_SomeD)
  show ?thesis
    using assms a
    by (simp add: valid_info_def cell_at_set live_object_infos read_string_infos)
qed

lemma unref_InrD:
  assumes "tracker_extract_info_unref h (Some a) = Inr h'" and "cell_at (infos h) a = Some i"
    and "ref_count i = 1"
  shows "cell_at (infos h') a = None"
  using assms
  by (auto simp: tracker_extract_info_unref_def Let_def and_then_def g_slice_free_def
        cell_at_free split: sum.splits option.splits if_splits)

lemma balance:
  assumes l: "cell_at (infos h) a = Some i" and nz: "ref_count i \<noteq> 0"
    and b: "unat (ref_count i) + N < 2 ^ 32" and k: "k \<le> N"
  shows "and_then (acquire_n N h (Some a)) (\<lambda>hN. release_n k hN (Some a)) =
     Inr (h\<lparr>infos := cell_set (infos h) a (i\<lparr>ref_count := ref_count i + of_nat (N - k)\<rparr>)\<rparr>)"
proof -
  let ?iN = "i\<lparr>ref_count := ref_count i + of_nat N\<rparr>"
  let ?hN = "h\<lparr>infos := cell_set (infos h) a ?iN\<rparr>"
  have a: "a < length (infos h)" using l by (rule cell_at_SomeD)
  have lN: "cell_at (infos ?hN) a = Some ?iN"
    using a by (simp add: cell_at_set)
  have "0 < unat (ref_count i)" using nz by (simp add: unat_gt_0)
  then have "k < unat (ref_count ?iN)"
    using k by (simp add: unat_plus_nat [OF b])
  from release_n_live [OF lN this] k show ?thesis
    by (simp add: acquire_n_live [OF l] and_then_def cell_set_twice add_diff_eq)
qed

text \<open>
  C4, as the code has it. Take a validly constructed context whose 32-bit \<open>ref_count\<close> is
  \<open>c\<close>, and \<open>N\<close> with \<open>c + N < 2 ^ 32\<close>, so that the counter does not wrap around.
  Then \<open>tracker_extract_info_ref\<close> followed by \<open>tracker_extract_info_unref\<close> gives back
  the heap as it was, count included; after \<open>N\<close> calls of \<open>ref\<close>, each of the first \<open>N\<close>
  calls of \<open>unref\<close> leaves the context alive, the \<open>N\<close>-th gives back the heap as it was,
  and the context is destroyed by call number \<open>c + N\<close>. A call of \<open>unref\<close> destroys the
  context exactly when the count was 1 (it reaches zero); otherwise it releases nothing.
  Destruction frees the struct, drops one reference on the file and one on the resource
  if there is one, frees the content id, mimetype and graph strings, and touches no
  other string or object.
\<close>

theorem C4_reference_counting:
  assumes v: "valid_info h (Some a)" and l: "cell_at (infos h) a = Some i"
    and b: "unat (ref_count i) + N < 2 ^ 32"
  shows
    "(\<exists>h1. tracker_extract_info_ref h (Some a) = Inr (Some a, h1) \<and>
        tracker_extract_info_unref h1 (Some a) = Inr h) \<and>
     (\<exists>hN. acquire_n N h (Some a) = Inr hN \<and>
        (\<forall>k\<le>N. \<exists>hk ik. release_n k hN (Some a) = Inr hk \<and>
           cell_at (infos hk) a = Some ik \<and>
           unat (ref_count ik) = unat (ref_count i) + N - k) \<and>
        release_n N hN (Some a) = Inr h \<and>
        (\<exists>hd. release_n (unat (ref_count i) + N) hN (Some a) = Inr hd \<and>
           cell_at (infos hd) a = None)) \<and>
     (\<exists>h'. tracker_extract_info_unref h (Some a) = Inr h' \<and>
        (cell_at (infos h') a = None \<longleftrightarrow> ref_count i = 1) \<and>
        (ref_count i \<noteq> 1 \<longrightarrow> objects h' = objects h \<and> strings h' = strings h) \<and>
        (ref_count i = 1 \<longrightarrow>
           0 < object_refs h (file i) \<and>
           object_refs h' (file i) = object_refs h (file i) - 1 \<and>
           (resource i \<noteq> None \<longrightarrow>
              0 < object_refs h (resource i) \<and>
              object_refs h' (resource i) = object_refs h (resource i) - 1) \<and>
           (\<forall>p. Some p \<in> {content_id i, mimetype i, graph i} \<longrightarrow>
              cell_at (strings h) p \<noteq> None \<and> cell_at (strings h') p = None) \<and>
           (\<forall>p. Some p \<notin> {content_id i, mimetype i, graph i} \<longrightarrow>
              cell_at (strings h') p = cell_at (strings h) p) \<and>
           (\<forall>q. Some q \<noteq> file i \<and> Some q \<noteq> resource i \<longrightarrow>
              cell_at (objects h') q = cell_at (objects h) q)))"
proof (intro conjI)
  from v l have nz: "ref_count i \<noteq> 0"
    by (simp add: valid_info_def)
  from ref_unref [OF l nz]
  show "\<exists>h1. tracker_extract_info_ref h (Some a) = Inr (Some a, h1) \<and>
        tracker_extract_info_unref h1 (Some a) = Inr h"
    by blast
  have a: "a < length (infos h)" using l by (rule cell_at_SomeD)
  let ?c = "ref_count i"
  let ?hN = "h\<lparr>infos := cell_set (infos h) a (i\<lparr>ref_count := ?c + of_nat N\<rparr>)\<rparr>"
  have acq: "acquire_n N h (Some a) = Inr ?hN"
    by (rule acquire_n_live [OF l])
  have rel: "release_n k ?hN (Some a) =
      Inr (h\<lparr>infos := cell_set (infos h) a (i\<lparr>ref_count := ?c + of_nat (N - k)\<rparr>)\<rparr>)"
    if "k \<le> N" for k
    using balance [OF l nz b that] by (simp add: acq and_then_def)
  have cnt: "unat (?c + of_nat (N - k)) = unat ?c + N - k" if "k \<le> N" for k
  proof -
    have "unat ?c + (N - k) < 2 ^ 32" using b by simp
    from unat_plus_nat [OF this] that show ?thesis by simp
  qed
  have part: "\<forall>k\<le>N. \<exists>hk ik. release_n k ?hN (Some a) = Inr hk \<and>
           cell_at (infos hk) a = Some ik \<and>
           unat (ref_count ik) = unat ?c + N - k"
    using a by (simp add: rel cnt cell_at_set del: of_nat_diff)
  have restored: "release_n N ?hN (Some a) = Inr h"
    using rel [of N] l by (simp add: cell_set_same)
  have pos: "0 < unat ?c" using nz by (simp add: unat_gt_0)
  have last: "\<exists>hd. release_n (unat ?c + N) ?hN (Some a) = Inr hd \<and> cell_at (infos hd) a = None"
  proof -
    let ?M = "unat ?c + N"
    let ?iN = "i\<lparr>ref_count := ?c + of_nat N\<rparr>"
    let ?h1 = "h\<lparr>infos := cell_set (infos h) a (i\<lparr>ref_count := 1\<rparr>)\<rparr>"
    have lN: "cell_at (infos ?hN) a = Some ?iN"
      using a by (simp add: cell_at_set)
    have uN: "unat (?c + of_nat N) = ?M"
      by (rule unat_plus_nat [OF b])
    have lt: "?M - 1 < unat (ref_count ?iN)"
      using pos by (simp add: uN)
    have "unat (?c + of_nat N - of_nat (?M - 1)) = 1"
      using pos uN b by (simp add: unat_sub word_le_nat_alt unat_of_nat)
    then have one: "?c + of_nat N - of_nat (?M - 1) = 1"
      by (rule word_eq_1)
    have r1: "release_n (?M - 1) ?hN (Some a) = Inr ?h1"
      using release_n_live [OF lN lt] one by (simp add: cell_set_twice)
    have v1: "valid_info ?h1 (Some a)"
      by (rule valid_info_count [OF v l]) simp
    have l1: "cell_at (infos ?h1) a = Some (i\<lparr>ref_count := 1\<rparr>)"
      using a by (simp add: cell_at_set)
    from unref_destroy [OF v1 l1] obtain hd where
      "tracker_extract_info_unref ?h1 (Some a) = Inr hd" "cell_at (infos hd) a = None"
      by auto
    moreover have "?M = Suc (?M - 1)" using pos by simp
    ultimately show ?thesis
      using r1 by (metis (no_types, lifting) release_n_snoc and_then_def sum.simps(6))
  qed
  from acq part restored last
  show "\<exists>hN. acquire_n N h (Some a) = Inr hN \<and>
        (\<forall>k\<le>N. \<exists>hk ik. release_n k hN (Some a) = Inr hk \<and>
           cell_at (infos hk) a = Some ik \<and>
           unat (ref_count ik) = unat (ref_count i) + N - k) \<and>
        release_n N hN (Some a) = Inr h \<and>
        (\<exists>hd. release_n (unat (ref_count i) + N) hN (Some a) = Inr hd \<and>
           cell_at (infos hd) a = None)"
    by blast
  show "\<exists>h'. tracker_extract_info_unref h (Some a) = Inr h' \<and>
        (cell_at (infos h') a = None \<longleftrightarrow> ref_count i = 1) \<and>
        (ref_count i \<noteq> 1 \<longrightarrow> objects h' = objects h \<and> strings h' = strings h) \<and>
        (ref_count i = 1 \<longrightarrow>
           0 < object_refs h (file i) \<and>
           object_refs h' (file i) = object_refs h (file i) - 1 \<and>
           (resource i \<noteq> None \<longrightarrow>
              0 < object_refs h (resource i) \<and>
              object_refs h' (resource i) = object_refs h (resource i) - 1) \<and>
           (\<forall>p. Some p \<in> {content_id i, mimetype i, graph i} \<longrightarrow>
              cell_at (strings h) p \<noteq> None \<and> cell_at (strings h') p = None) \<and>
           (\<forall>p. Some p \<notin> {content_id i, mimetype i, graph i} \<longrightarrow>
              cell_at (strings h') p = cell_at (strings h) p) \<and>
           (\<forall>q. Some q \<noteq> file i \<and> Some q \<noteq> resource i \<longrightarrow>
              cell_at (objects h') q = cell_at (objects h) q))"
  proof (cases "ref_count i = 1")
    case True
    from unref_destroy [OF v l True] True show ?thesis
      by auto
  next
    case False
    from unref_keep [OF l False] False a show ?thesis
      by (simp add: cell_at_set)
  qed
qed

lemma info_heap1:
  "cell_at (infos heap1) 0 =
     Some \<lparr>resource = None, file = Some 0, content_id = Some 0,
           mimetype = Some 1, graph = None, max_text = 0, ref_count = 1\<rparr>"
  by (simp add: heap1_def cell_at_def)

lemma unref_heap1:
  "tracker_extract_info_unref heap1 (Some 0) =
     Inr (heap0\<lparr>strings := [None, None], infos := [None]\<rparr>)"
  by (simp add: tracker_extract_info_unref_def heap1_def heap0_def cell_at_Cons cell_at_Nil
        and_then_def g_object_unref_def g_free_def g_slice_free_def cell_set_def cell_free_def)

text \<open>
  C4 as stated, for every \<open>N\<close>, fails where the counter wraps: \<open>ref_count\<close> is a
  \<^verbatim>\<open>gint\<close>, and \<open>2 ^ 32\<close> calls of \<open>tracker_extract_info_ref\<close> on the new context of
  \<open>heap1\<close> bring the count back to 1. The first call of \<open>tracker_extract_info_unref\<close>
  then destroys the context, not the \<open>2 ^ 32\<close>-th.
\<close>

theorem C4_wraparound_counterexample:
  "valid_info heap1 (Some 0) \<and>
   acquire_n (2 ^ 32) heap1 (Some 0) = Inr heap1 \<and>
   release_n 1 heap1 (Some 0) = Inr (heap0\<lparr>strings := [None, None], infos := [None]\<rparr>) \<and>
   cell_at (infos (heap0\<lparr>strings := [None, None], infos := [None]\<rparr>)) 0 = None"
proof -
  have "acquire_n (2 ^ 32) heap1 (Some 0) = Inr heap1"
    using acquire_n_live [OF info_heap1, of "2 ^ 32"] info_heap1
    by (simp add: cell_set_same)
  moreover have "release_n 1 heap1 (Some 0) =
      Inr (heap0\<lparr>strings := [None, None], infos := [None]\<rparr>)"
    by (simp add: unref_heap1 and_then_def)
  ultimately show ?thesis
    using valid_heap1 by (simp add: cell_at_Cons)
qed

theorem C4_reference_counting_witness:
  "valid_info heap1 (Some 0) \<and>
   (\<exists>h1. tracker_extract_info_ref heap1 (Some 0) = Inr (Some 0, h1) \<and>
      tracker_extract_info_unref h1 (Some 0) = Inr heap1) \<and>
   (\<exists>hN. acquire_n 2 heap1 (Some 0) = Inr hN \<and>
      release_n 2 hN (Some 0) = Inr heap1 \<and>
      (\<exists>hd. release_n 3 hN (Some 0) = Inr hd \<and> cell_at (infos hd) 0 = None)) \<and>
   (\<exists>h'. tracker_extract_info_unref heap1 (Some 0) = Inr h' \<and>
      cell_at (infos h') 0 = None \<and>
      object_refs heap1 (Some 0) = 2 \<and> object_refs h' (Some 0) = 1 \<and>
      cell_at (strings h') 0 = None \<and> cell_at (strings h') 1 = None)"
proof -
  let ?i = "\<lparr>resource = None, file = Some 0, content_id = Some 0,
            mimetype = Some 1, graph = None, max_text = 0, ref_count = 1\<rparr>"
  have b: "unat (ref_count ?i) + 2 < 2 ^ 32"
    by simp
  have r: "object_refs heap1 (Some 0) = 2"
    by (simp add: object_refs_def heap1_def cell_at_Cons)
  note C = C4_reference_counting [OF valid_heap1 info_heap1 b]
  have c1: "\<exists>h1. tracker_extract_info_ref heap1 (Some 0) = Inr (Some 0, h1) \<and>
      tracker_extract_info_unref h1 (Some 0) = Inr heap1"
    by (rule C [THEN conjunct1])
  from C [THEN conjunct2, THEN conjunct1] obtain hN where
    n0: "acquire_n 2 heap1 (Some 0) = Inr hN \<and>
        (\<forall>k\<le>2. \<exists>hk ik. release_n k hN (Some 0) = Inr hk \<and>
           cell_at (infos hk) 0 = Some ik \<and>
           unat (ref_count ik) = unat (ref_count ?i) + 2 - k) \<and>
        release_n 2 hN (Some 0) = Inr heap1 \<and>
        (\<exists>hd. release_n (unat (ref_count ?i) + 2) hN (Some 0) = Inr hd \<and>
           cell_at (infos hd) 0 = None)" ..
  note n = n0 [THEN conjunct1] n0 [THEN conjunct2, THEN conjunct2, THEN conjunct1]
    n0 [THEN conjunct2, THEN conjunct2, THEN conjunct2]
  have three: "unat (ref_count ?i) + 2 = 3"
    by simp
  have c2: "\<exists>hN. acquire_n 2 heap1 (Some 0) = Inr hN \<and>
      release_n 2 hN (Some 0) = Inr heap1 \<and>
      (\<exists>hd. release_n 3 hN (Some 0) = Inr hd \<and> cell_at (infos hd) 0 = None)"
    using n unfolding three by blast
  from C [THEN conjunct2, THEN conjunct2] obtain h' where
    u0: "tracker_extract_info_unref heap1 (Some 0) = Inr h' \<and>
       (cell_at (infos h') 0 = None \<longleftrightarrow> ref_count ?i = 1) \<and>
       (ref_count ?i \<noteq> 1 \<longrightarrow> objects h' = objects heap1 \<and> strings h' = strings heap1) \<and>
       (ref_count ?i = 1 \<longrightarrow>
           0 < object_refs heap1 (file ?i) \<and>
           object_refs h' (file ?i) = object_refs heap1 (file ?i) - 1 \<and>
           (resource ?i \<noteq> None \<longrightarrow>
              0 < object_refs heap1 (resource ?i) \<and>
              object_refs h' (resource ?i) = object_refs heap1 (resource ?i) - 1) \<and>
           (\<forall>p. Some p \<in> {content_id ?i, mimetype ?i, graph ?i} \<longrightarrow>
              cell_at (strings heap1) p \<noteq> None \<and> cell_at (strings h') p = None) \<and>
           (\<forall>p. Some p \<notin> {content_id ?i, mimetype ?i, graph ?i} \<longrightarrow>
              cell_at (strings h') p = cell_at (strings heap1) p) \<and>
           (\<forall>q. Some q \<noteq> file ?i \<and> Some q \<noteq> resource ?i \<longrightarrow>
              cell_at (objects h') q = cell_at (objects heap1) q))" ..
  note u = u0 [THEN conjunct1] u0 [THEN conjunct2, THEN conjunct1]
    u0 [THEN conjunct2, THEN conjunct2, THEN conjunct2]
  from u(2) have g: "cell_at (infos h') 0 = None" by simp
  from u(3) have o: "object_refs h' (Some 0) = object_refs heap1 (Some 0) - 1"
    and s: "\<forall>p. Some p \<in> {Some (0::nat), Some 1, None} \<longrightarrow> cell_at (strings h') p = None"
    by simp_all
  from s have s0: "cell_at (strings h') 0 = None" and s1: "cell_at (strings h') 1 = None"
    by simp_all
  from o r have o1: "object_refs h' (Some 0) = 1" by simp
  from u(1) g r o1 s0 s1
  have c3: "\<exists>h'. tracker_extract_info_unref heap1 (Some 0) = Inr h' \<and>
      cell_at (infos h') 0 = None \<and>
      object_refs heap1 (Some 0) = 2 \<and> object_refs h' (Some 0) = 1 \<and>
      cell_at (strings h') 0 = None \<and> cell_at (strings h') 1 = None"
    by blast
  from valid_heap1 c1 c2 c3 show ?thesis
    by (intro conjI)
qed

section \<open>Replacing the resource\<close>

lemma set_resource_heap1:
  "tracker_extract_info_set_resource heap1 (Some 0) (Some 1) = Inr heap2"
proof -
  have "cell_at (objects heap1) 1 = Some \<lparr>g_type = TRACKER_TYPE_RESOURCE, g_ref_count = 1\<rparr>"
    by (simp add: heap1_def cell_at_Cons)
  from set_resource_live [OF info_heap1 this] show ?thesis
    by (simp add: heap1_def heap2_def cell_set_def)
qed

lemma set_resource_heap2:
  "tracker_extract_info_set_resource heap2 (Some 0) (Some 2) = Inr heap3"
proof -
  have "cell_at (infos heap2) 0 =
          Some \<lparr>resource = Some 1, file = Some 0, content_id = Some 0,
                mimetype = Some 1, graph = None, max_text = 0, ref_count = 1\<rparr>"
    and "cell_at (objects heap2) 2 = Some \<lparr>g_type = TRACKER_TYPE_RESOURCE, g_ref_count = 1\<rparr>"
    by (simp_all add: heap2_def cell_at_Cons)
  from set_resource_live [OF this] show ?thesis
    by (simp add: heap2_def heap3_def cell_set_def)
qed

lemma unref_heap3: "tracker_extract_info_unref heap3 (Some 0) = Inr heap4"
  by (simp add: tracker_extract_info_unref_def heap3_def heap4_def cell_at_Cons cell_at_Nil
        and_then_def g_object_unref_def g_free_def g_slice_free_def cell_set_def cell_free_def)

text \<open>
  C1 on the code. The claim is that after \<open>set_resource (ctx, R1)\<close> and
  \<open>set_resource (ctx, R2)\<close> the context returns R2 and has released R1 exactly once.
  The code returns R2, but \<open>tracker_extract_info_set_resource\<close> overwrites the pointer
  without dropping the reference it took on R1: on the context of \<open>heap1\<close>, R1 (address
  1) goes from one reference to two at the first call and still has two after the
  second call and after the context is destroyed, while the reference on R2 (address 2)
  is given back by \<open>tracker_extract_info_unref\<close>.
\<close>

theorem C1_replaced_resource_is_not_released:
  "tracker_extract_info_new heap0 (Some 0) (Some ''abc123'') (Some ''audio/mpeg'') None 0 =
     Inr (Some 0, heap1) \<and>
   tracker_extract_info_set_resource heap1 (Some 0) (Some 1) = Inr heap2 \<and>
   tracker_extract_info_set_resource heap2 (Some 0) (Some 2) = Inr heap3 \<and>
   tracker_extract_info_get_resource heap3 (Some 0) = Inr (Some 2, heap3) \<and>
   object_refs heap1 (Some 1) = 1 \<and>
   object_refs heap2 (Some 1) = 2 \<and>
   object_refs heap3 (Some 1) = 2 \<and>
   tracker_extract_info_unref heap3 (Some 0) = Inr heap4 \<and>
   cell_at (infos heap4) 0 = None \<and>
   object_refs heap4 (Some 1) = 2 \<and>
   object_refs heap4 (Some 2) = 1"
proof -
  have "tracker_extract_info_get_resource heap3 (Some 0) = Inr (Some 2, heap3)"
    by (simp add: tracker_extract_info_get_resource_def heap3_def cell_at_Cons)
  moreover have "object_refs heap1 (Some 1) = 1" "object_refs heap2 (Some 1) = 2"
    "object_refs heap3 (Some 1) = 2" "object_refs heap4 (Some 1) = 2"
    "object_refs heap4 (Some 2) = 1"
    by (simp_all add: object_refs_def heap1_def heap2_def heap3_def heap4_def cell_at_Cons)
  moreover have "cell_at (infos heap4) 0 = None"
    by (simp add: heap4_def cell_at_Cons)
  ultimately show ?thesis
    using new_heap0 set_resource_heap1 set_resource_heap2 unref_heap3 by simp
qed

section \<open>The content id never changes\<close>

lemma perform_dead:
  "cell_at (infos h) a = None \<Longrightarrow> \<exists>e. perform h (Some a) x = Inl e"
proof (cases x)
  case (SetResource r)
  assume d: "cell_at (infos h) a = None"
  show ?thesis
  proof (cases "g_object_ref h r")
    case (Inl e)
    then show ?thesis
      by (simp add: SetResource tracker_extract_info_set_resource_def and_then_def)
  next
    case (Inr y)
    obtain p h1 where y: "y = (p, h1)" by (cases y)
    from g_object_ref_frame [OF Inr [unfolded y]] d show ?thesis
      by (simp add: SetResource tracker_extract_info_set_resource_def and_then_def Inr y)
  qed
qed (simp_all add: tracker_extract_info_ref_def tracker_extract_info_unref_def
       tracker_extract_info_get_content_id_def tracker_extract_info_get_file_def
       tracker_extract_info_get_mimetype_def tracker_extract_info_get_graph_def
       tracker_extract_info_get_resource_def tracker_extract_info_get_max_text_def and_then_def)

lemma perform_keeps_content_id:
  assumes l: "cell_at (infos h) a = Some i" and c: "content_id i = Some c"
    and s: "cell_at (strings h) c = Some cid"
    and p: "perform h (Some a) x = Inr h'"
  shows "cell_at (infos h') a = None \<or>
         (\<exists>i'. cell_at (infos h') a = Some i' \<and> content_id i' = Some c \<and>
               cell_at (strings h') c = Some cid)"
proof (cases x)
  case Ref
  have "a < length (infos h)" using l by (rule cell_at_SomeD)
  with p l c s show ?thesis
    by (auto simp: Ref ref_live and_then_def cell_at_set)
next
  case Unref
  show ?thesis
  proof (cases "ref_count i = 1")
    case True
    from p have "tracker_extract_info_unref h (Some a) = Inr h'" by (simp add: Unref)
    from unref_InrD [OF this l True] show ?thesis by simp
  next
    case False
    have "a < length (infos h)" using l by (rule cell_at_SomeD)
    with p l c s False show ?thesis
      by (auto simp: Unref unref_keep cell_at_set)
  qed
next
  case (SetResource r)
  from p have "tracker_extract_info_set_resource h (Some a) r = Inr h'"
    by (simp add: SetResource)
  from set_resource_InrD [OF this] obtain q h1 where
    *: "g_object_ref h r = Inr (q, h1)"
       "h' = h1\<lparr>infos := cell_set (infos h) a (i\<lparr>resource := r\<rparr>)\<rparr>"
    using l by auto
  from g_object_ref_frame [OF *(1)] have "strings h1 = strings h" by simp
  moreover have "a < length (infos h)" using l by (rule cell_at_SomeD)
  ultimately show ?thesis
    using * c s by (simp add: cell_at_set)
next
  case (GetContentId suffix)
  have "c < length (strings h)" using s by (rule cell_at_SomeD)
  with p l c s show ?thesis
    by (auto simp: GetContentId get_content_id_live [OF l c s] and_then_def cell_at_snoc)
next
  case GetFile
  with p l c s show ?thesis
    by (auto simp: tracker_extract_info_get_file_def and_then_def)
next
  case GetMimetype
  with p l c s show ?thesis
    by (auto simp: tracker_extract_info_get_mimetype_def and_then_def)
next
  case GetGraph
  with p l c s show ?thesis
    by (auto simp: tracker_extract_info_get_graph_def and_then_def)
next
  case GetResource
  with p l c s show ?thesis
    by (auto simp: tracker_extract_info_get_resource_def and_then_def)
next
  case GetMaxText
  with p l c s show ?thesis
    by (auto simp: tracker_extract_info_get_max_text_def and_then_def)
qed

lemma perform_all_dead:
  "cell_at (infos h) a = None \<Longrightarrow> perform_all h (Some a) xs = Inr h' \<Longrightarrow> xs = [] \<and> h' = h"
proof (cases xs)
  case Nil
  assume "perform_all h (Some a) xs = Inr h'"
  with Nil show ?thesis by simp
next
  case (Cons x ys)
  assume "cell_at (infos h) a = None" and r: "perform_all h (Some a) xs = Inr h'"
  from perform_dead [OF this(1), of x] obtain e where "perform h (Some a) x = Inl e" ..
  with r Cons show ?thesis by (simp add: and_then_def)
qed

lemma perform_all_keeps_content_id:
  assumes "perform_all h (Some a) xs = Inr h'"
    and "cell_at (infos h) a = Some i" and "content_id i = Some c"
    and "cell_at (strings h) c = Some cid"
    and "cell_at (infos h') a \<noteq> None"
  shows "\<exists>i'. cell_at (infos h') a = Some i' \<and> content_id i' = Some c \<and>
               cell_at (strings h') c = Some cid"
  using assms
proof (induction xs arbitrary: h i)
  case Nil
  then show ?case by simp
next
  case (Cons x xs)
  from Cons.prems(1) obtain h1 where
    p: "perform h (Some a) x = Inr h1" and r: "perform_all h1 (Some a) xs = Inr h'"
    by (cases "perform h (Some a) x") (simp_all add: and_then_def)
  from perform_keeps_content_id [OF Cons.prems(2-4) p]
  show ?case
  proof
    assume d: "cell_at (infos h1) a = None"
    from perform_all_dead [OF d r] d Cons.prems(5) show ?thesis by simp
  next
    assume "\<exists>i'. cell_at (infos h1) a = Some i' \<and> content_id i' = Some c \<and>
               cell_at (strings h1) c = Some cid"
    then obtain i1 where "cell_at (infos h1) a = Some i1" "content_id i1 = Some c"
        "cell_at (strings h1) c = Some cid"
      by blast
    from Cons.IH [OF r this Cons.prems(5)] show ?thesis .
  qed
qed

text \<open>
  C7. The content id of a context is the non-empty string given to
  \<open>tracker_extract_info_new\<close>, copied once into a string of the context's own. Whatever
  sequence of the file's functions is then called on the context (\<open>ref\<close>, \<open>unref\<close>,
  \<open>set_resource\<close>, \<open>get_content_id\<close>, the other accessors), as long as the context has
  not been destroyed the \<open>content_id\<close> field still points to that string, the string is
  unchanged, and \<open>get_content_id\<close> with a \<^verbatim>\<open>NULL\<close> suffix returns a copy of it.
\<close>

theorem C7_content_id_immutable:
  assumes n: "tracker_extract_info_new h0 filep cid m g mt = Inr (Some a, h)"
    and r: "perform_all h (Some a) xs = Inr h'"
    and alive: "cell_at (infos h') a \<noteq> None"
  shows "\<exists>s c i i'. cid = Some s \<and> s \<noteq> [] \<and>
           cell_at (infos h0) a = None \<and>
           cell_at (infos h) a = Some i \<and> content_id i = Some c \<and>
           cell_at (strings h) c = Some s \<and>
           cell_at (infos h') a = Some i' \<and> content_id i' = Some c \<and>
           cell_at (strings h') c = Some s \<and>
           stored_content_id h a = Some s \<and> stored_content_id h' a = Some s \<and>
           (\<exists>p k. tracker_extract_info_get_content_id h' (Some a) None = Inr (Some p, k) \<and>
                  cell_at (strings k) p = Some s)"
proof -
  from new_InrD [OF n] obtain f ob s where
    f: "filep = Some f" "cell_at (objects h0) f = Some ob" "g_type ob = G_TYPE_FILE"
    and s: "cid = Some s" "s \<noteq> []"
    by blast
  from n have a: "a = length (infos h0)"
    and h: "h = \<lparr>objects = cell_set (objects h0) f (ob\<lparr>g_ref_count := g_ref_count ob + 1\<rparr>),
           strings = strings h0 @ [Some s]
                     @ (case m of None \<Rightarrow> [] | Some v \<Rightarrow> [Some v])
                     @ (case g of None \<Rightarrow> [] | Some v \<Rightarrow> [Some v]),
           infos = infos h0 @
             [Some \<lparr>resource = None, file = Some f,
                    content_id = Some (length (strings h0)),
                    mimetype = (case m of None \<Rightarrow> None | Some v \<Rightarrow> Some (length (strings h0) + 1)),
                    graph = (case g of None \<Rightarrow> None
                             | Some v \<Rightarrow> Some (length (strings h0) + 1 +
                                                (case m of None \<Rightarrow> 0 | Some v \<Rightarrow> 1))),
                    max_text = mt, ref_count = 1\<rparr>],
           criticals = criticals h0\<rparr>"
    unfolding f(1) s(1) new_result [OF f(2) f(3) s(2)] by simp_all
  let ?i = "\<lparr>resource = None, file = Some f,
                    content_id = Some (length (strings h0)),
                    mimetype = (case m of None \<Rightarrow> None | Some v \<Rightarrow> Some (length (strings h0) + 1)),
                    graph = (case g of None \<Rightarrow> None
                             | Some v \<Rightarrow> Some (length (strings h0) + 1 +
                                                (case m of None \<Rightarrow> 0 | Some v \<Rightarrow> 1))),
                    max_text = mt, ref_count = 1\<rparr>"
  have l: "cell_at (infos h) a = Some ?i"
    by (simp add: a h cell_at_snoc)
  have c: "content_id ?i = Some (length (strings h0))"
    by simp
  have st: "cell_at (strings h) (length (strings h0)) = Some s"
    by (simp add: h cell_at_append cell_at_Cons)
  from perform_all_keeps_content_id [OF r l c st alive] obtain i' where
    l': "cell_at (infos h') a = Some i'" "content_id i' = Some (length (strings h0))"
        "cell_at (strings h') (length (strings h0)) = Some s"
    by blast
  have fresh: "cell_at (infos h0) a = None"
    by (simp add: a cell_at_length)
  have g: "\<exists>p k. tracker_extract_info_get_content_id h' (Some a) None = Inr (Some p, k) \<and>
                  cell_at (strings k) p = Some s"
    by (simp add: get_content_id_live [OF l'] cell_at_snoc)
  from s l c st l' fresh g show ?thesis
    by (simp add: stored_content_id_def)
qed

lemma perform_all_heap1:
  "perform_all heap1 (Some 0)
     [Ref, SetResource (Some 1), GetContentId (Some ''3''), GetFile, GetMimetype, GetGraph,
      GetResource, GetMaxText, Unref] =
   Inr (heap2\<lparr>strings := strings heap2 @ [Some ''abc123/3'']\<rparr>)"
  by (simp add: heap1_def heap2_def and_then_def cell_at_Cons cell_at_Nil
        tracker_extract_info_ref_def tracker_extract_info_unref_def
        tracker_extract_info_set_resource_def tracker_extract_info_get_content_id_def
        tracker_extract_info_get_file_def tracker_extract_info_get_mimetype_def
        tracker_extract_info_get_graph_def tracker_extract_info_get_resource_def
        tracker_extract_info_get_max_text_def store_info_def g_object_ref_def
        read_string_def g_strconcat_def cell_new_eq cell_set_def)

theorem C7_content_id_immutable_witness:
  "tracker_extract_info_new heap0 (Some 0) (Some ''abc123'') (Some ''audio/mpeg'') None 0 =
     Inr (Some 0, heap1) \<and>
   perform_all heap1 (Some 0)
     [Ref, SetResource (Some 1), GetContentId (Some ''3''), GetFile, GetMimetype, GetGraph,
      GetResource, GetMaxText, Unref] =
   Inr (heap2\<lparr>strings := strings heap2 @ [Some ''abc123/3'']\<rparr>) \<and>
   cell_at (infos (heap2\<lparr>strings := strings heap2 @ [Some ''abc123/3'']\<rparr>)) 0 \<noteq> None \<and>
   stored_content_id heap1 0 = Some ''abc123'' \<and>
   stored_content_id (heap2\<lparr>strings := strings heap2 @ [Some ''abc123/3'']\<rparr>) 0 =
     Some ''abc123'' \<and>
   (\<exists>p k. tracker_extract_info_get_content_id
             (heap2\<lparr>strings := strings heap2 @ [Some ''abc123/3'']\<rparr>) (Some 0) None =
           Inr (Some p, k) \<and>
          cell_at (strings k) p = Some ''abc123'')"
proof -
  have alive: "cell_at (infos (heap2\<lparr>strings := strings heap2 @ [Some ''abc123/3'']\<rparr>)) 0 \<noteq> None"
    by (simp add: heap2_def cell_at_Cons)
  from C7_content_id_immutable [OF new_heap0 perform_all_heap1 alive]
    new_heap0 perform_all_heap1 alive
  show ?thesis by auto
qed

end
